theory Spec2Isabelle
  imports Main
begin

section \<open>Data model\<close>

subsection \<open>JavaScript values the code inspects\<close>

text \<open>
  Optional strings stand for JSON properties and error messages: \<open>None\<close> is an absent
  (undefined) property. \<open>js_or v d\<close> is the expression \<^verbatim>\<open>v || d\<close>: an absent and an
  empty string are both falsy.
\<close>

definition js_or :: "string option \<Rightarrow> string \<Rightarrow> string" where
  "js_or v d = (case v of None \<Rightarrow> d | Some s \<Rightarrow> if s = [] then d else s)"

text \<open>The text a template literal prints for a property: \<^verbatim>\<open>${result.status}\<close>.\<close>

definition template_text :: "string option \<Rightarrow> string" where
  "template_text v = (case v of None \<Rightarrow> ''undefined'' | Some s \<Rightarrow> s)"

subsection \<open>Network replies\<close>

text \<open>
  The body of a reply of the local endpoints, as far as the clients read it: the
  properties \<^verbatim>\<open>uploadUrl\<close>, \<^verbatim>\<open>transcriptId\<close>, \<^verbatim>\<open>status\<close>, \<^verbatim>\<open>text\<close> and \<^verbatim>\<open>error\<close>.
\<close>

record json_obj =
  j_uploadUrl :: "string option"
  j_transcriptId :: "string option"
  j_status :: "string option"
  j_text :: "string option"
  j_error :: "string option"

text \<open>
  \<^verbatim>\<open>response.json()\<close> either rejects (with an error message) or yields the parsed body.
  \<^verbatim>\<open>fetch(...)\<close> either rejects (network failure) or yields a response with its
  \<^verbatim>\<open>ok\<close> flag.
\<close>

datatype json_result = JsonReject string | JsonValue json_obj

datatype fetch_result = FetchReject string | Response bool json_result

subsection \<open>The recorder of the browser\<close>

text \<open>
  A \<^verbatim>\<open>MediaRecorder\<close> object with the stream it was constructed on. \<open>state\<close> is its
  \<^verbatim>\<open>state\<close> attribute; \<open>stop_pending\<close> says that \<^verbatim>\<open>stop()\<close> was called and the browser
  has not yet delivered the \<^verbatim>\<open>stop\<close> event; \<open>stream_live\<close> says that the tracks of its
  stream have not been stopped, that is, the capture device is still held.
\<close>

datatype recorder_state = Inactive | Recording | Paused

record MediaRecorder =
  state :: recorder_state
  stop_pending :: bool
  stream_live :: bool

text \<open>A chunk is the data of one \<^verbatim>\<open>dataavailable\<close> event; a blob is built from chunks.\<close>

type_synonym chunk = "nat list"
type_synonym blob = "chunk list"

subsection \<open>Effects on the outside world\<close>

datatype effect =
    Upload blob
  | StartJob "string option"
  | FetchStatus "string option"
  | SetTimeout nat

fun is_fetch :: "effect \<Rightarrow> bool" where
  "is_fetch (FetchStatus _) = True"
| "is_fetch _ = False"

fun is_network :: "effect \<Rightarrow> bool" where
  "is_network (SetTimeout _) = False"
| "is_network _ = True"

definition fetches :: "effect list \<Rightarrow> nat" where
  "fetches tr = length (filter is_fetch tr)"

subsection \<open>The plain-script page (public/app.js)\<close>

text \<open>What \<^verbatim>\<open>transcriptionContent.innerHTML\<close> shows.\<close>

datatype content = Blank | Loading string | TranscriptionText string | ErrorBox string

text \<open>
  The module-level variables of \<^verbatim>\<open>app.js\<close> and the properties of the page it writes.
  \<open>detached\<close> holds the recorders that \<^verbatim>\<open>mediaRecorder\<close> no longer refers to: the
  script has lost them, the browser has not. \<open>timerInterval\<close> says whether the handle of
  an interval is stored, and \<open>lost_intervals\<close> counts the intervals whose handle was
  overwritten before they were cleared: the browser keeps firing them.
  \<open>timer_textContent\<close> is the pair of minutes and seconds shown.
\<close>

record app_js =
  mediaRecorder :: "MediaRecorder option"
  detached :: "MediaRecorder list"
  audioChunks :: "chunk list"
  audioBlob :: "blob option"
  isRecording :: bool
  isPaused :: bool
  startTime :: "int option"
  elapsedTime :: int
  timerInterval :: bool
  lost_intervals :: nat
  recordBtn_disabled :: bool
  recordBtn_textContent :: string
  pauseBtn_disabled :: bool
  pauseBtn_textContent :: string
  stopBtn_disabled :: bool
  submitBtn_disabled :: bool
  submitBtn_textContent :: string
  recordingStatus_textContent :: string
  timer_textContent :: "int \<times> int"
  errorMessage :: "string option"
  recordingView_shown :: bool
  transcriptionView_active :: bool
  transcriptionContent :: content

subsection \<open>The React page (pages/index.js)\<close>

datatype recording_state = RS_idle | RS_recording | RS_paused | RS_stopped

datatype transcription_status =
  TS_idle | TS_uploading | TS_processing | TS_completed | TS_error

text \<open>
  The refs and the state variables of the component \<^verbatim>\<open>Home\<close>. \<open>lost\<close> holds the
  recorders that \<^verbatim>\<open>mediaRecorderRef\<close> no longer refers to. \<open>timerRef\<close> says whether the
  handle of an interval is stored, and \<open>lost_timers\<close> counts the intervals whose handle
  was overwritten before they were cleared. \<open>pollTimeoutRef\<close> holds the
  handle of the last poll timer (identified by the attempt it runs) and
  \<open>pollTimeout_armed\<close> says whether the browser still has that timer pending.
\<close>

record home =
  mediaRecorderRef :: "MediaRecorder option"
  lost :: "MediaRecorder list"
  audioChunksRef :: "chunk list"
  audioBlobRef :: "blob option"
  timerRef :: bool
  lost_timers :: nat
  startTimeRef :: "int option"
  pollTimeoutRef :: "nat option"
  pollTimeout_armed :: bool
  recordingState :: recording_state
  elapsedMs :: int
  error :: string
  canSubmit :: bool
  transcriptionStatus :: transcription_status
  transcriptionText :: string
  transcriptionMessage :: string
  planError :: string

section \<open>The job poller\<close>

text \<open>
  One activation of the polling closure ends in one of three ways: an exception is
  thrown (with its message, in the state reached), the closure returns, or it has set a
  timer (delay in milliseconds) for the next activation (with the attempt counter that
  activation will see).
\<close>

datatype 's poll_step = Thrown string 's | Settled 's | Rescheduled nat nat 's

definition poll_maxAttempts :: nat where
  "poll_maxAttempts = 100"

definition delay :: nat where
  "delay = 3000"

subsection \<open>app.js: \<^verbatim>\<open>pollTranscription\<close> and its closure \<^verbatim>\<open>poll\<close>\<close>

definition showErrorInTranscription :: "string \<Rightarrow> app_js \<Rightarrow> app_js" where
  "showErrorInTranscription message s = s\<lparr>transcriptionContent := ErrorBox message\<rparr>"

text \<open>The body of the \<^verbatim>\<open>try\<close> block of \<^verbatim>\<open>poll\<close>; \<open>attempts\<close> is the closure variable.\<close>

definition app_poll_try :: "fetch_result \<Rightarrow> nat \<Rightarrow> app_js \<Rightarrow> app_js poll_step" where
  "app_poll_try reply attempts s =
    (case reply of
      FetchReject m \<Rightarrow> Thrown m s
    | Response ok body \<Rightarrow>
        if \<not> ok then Thrown ''Failed to get transcription status'' s
        else (case body of
          JsonReject m \<Rightarrow> Thrown m s
        | JsonValue result \<Rightarrow>
            if j_status result = Some ''completed'' then
              Settled (s\<lparr>transcriptionContent :=
                TranscriptionText (js_or (j_text result) ''No transcription text available'')\<rparr>)
            else if j_status result = Some ''error'' then
              Thrown (js_or (j_error result) ''Transcription failed'') s
            else
              (let attempts' = attempts + 1 in
               if attempts' \<ge> poll_maxAttempts then
                 Thrown ''Transcription timeout. Please try again.'' s
               else
                 Rescheduled 3000 attempts'
                   (s\<lparr>transcriptionContent := Loading
                     (''Processing transcription... ('' @ template_text (j_status result) @ '')'')\<rparr>))))"

text \<open>\<^verbatim>\<open>poll\<close> with its \<^verbatim>\<open>catch\<close> block.\<close>

definition app_poll :: "fetch_result \<Rightarrow> nat \<Rightarrow> app_js \<Rightarrow> app_js poll_step" where
  "app_poll reply attempts s =
    (case app_poll_try reply attempts s of
      Thrown m s' \<Rightarrow>
        Settled (showErrorInTranscription (js_or (Some m) ''Failed to get transcription'') s')
    | r \<Rightarrow> r)"

lemma app_poll_Rescheduled:
  "app_poll reply attempts s = Rescheduled d a s' \<Longrightarrow>
     a = attempts + 1 \<and> a < poll_maxAttempts \<and> d = 3000"
  by (auto simp: app_poll_def app_poll_try_def Let_def
      split: fetch_result.splits json_result.splits if_splits poll_step.splits)

text \<open>
  The event loop running the closure until it stops rescheduling itself. \<open>status_reply n\<close>
  is what the \<open>n\<close>-th fetch of the status yields (counted from 0); the result is the
  sequence of fetches and timers, and the final page.
\<close>

function app_poll_loop ::
  "(nat \<Rightarrow> fetch_result) \<Rightarrow> string option \<Rightarrow> nat \<Rightarrow> nat \<Rightarrow> app_js \<Rightarrow> effect list \<times> app_js" where
  "app_poll_loop status_reply transcriptId n attempts s =
    (case app_poll (status_reply n) attempts s of
      Rescheduled d attempts' s' \<Rightarrow>
        (let (tr, s'') = app_poll_loop status_reply transcriptId (n + 1) attempts' s'
         in (FetchStatus transcriptId # SetTimeout d # tr, s''))
    | Settled s' \<Rightarrow> ([FetchStatus transcriptId], s')
    | Thrown m s' \<Rightarrow> ([FetchStatus transcriptId], s'))"
  by pat_completeness auto
termination
  by (relation "measure (\<lambda>(status_reply, transcriptId, n, attempts, s). poll_maxAttempts - attempts)")
    (auto dest: app_poll_Rescheduled)

definition app_pollTranscription ::
  "(nat \<Rightarrow> fetch_result) \<Rightarrow> string option \<Rightarrow> app_js \<Rightarrow> effect list \<times> app_js" where
  "app_pollTranscription status_reply transcriptId s =
     app_poll_loop status_reply transcriptId 0 0 s"

subsection \<open>index.js: \<^verbatim>\<open>pollTranscription\<close> and its closure \<^verbatim>\<open>executePoll\<close>\<close>

text \<open>The body of the \<^verbatim>\<open>try\<close> block of \<^verbatim>\<open>executePoll\<close>.\<close>

definition executePoll_try :: "fetch_result \<Rightarrow> nat \<Rightarrow> home \<Rightarrow> home poll_step" where
  "executePoll_try reply attempt s =
    (case reply of
      FetchReject m \<Rightarrow> Thrown m s
    | Response ok body \<Rightarrow>
        if \<not> ok then Thrown ''Failed to get transcription status'' s
        else (case body of
          JsonReject m \<Rightarrow> Thrown m s
        | JsonValue result \<Rightarrow>
            if j_status result = Some ''completed'' then
              Settled (s\<lparr>transcriptionStatus := TS_completed,
                transcriptionText := js_or (j_text result) ''No transcription text available.'',
                transcriptionMessage := ''Transcription completed.''\<rparr>)
            else if j_status result = Some ''error'' then
              Thrown (js_or (j_error result) ''Transcription failed'') s
            else
              (let s1 = s\<lparr>transcriptionStatus := TS_processing,
                     transcriptionMessage :=
                       ''Processing transcription... ('' @ template_text (j_status result) @ '')''\<rparr>
               in
               if attempt + 1 \<ge> poll_maxAttempts then
                 Thrown ''Transcription timeout. Please try again.'' s1
               else
                 Rescheduled delay (attempt + 1)
                   (s1\<lparr>pollTimeoutRef := Some (attempt + 1), pollTimeout_armed := True\<rparr>))))"

text \<open>\<^verbatim>\<open>executePoll\<close> with its \<^verbatim>\<open>catch\<close> block.\<close>

definition executePoll :: "fetch_result \<Rightarrow> nat \<Rightarrow> home \<Rightarrow> home poll_step" where
  "executePoll reply attempt s =
    (case executePoll_try reply attempt s of
      Thrown m s' \<Rightarrow>
        Settled (s'\<lparr>transcriptionStatus := TS_error,
          transcriptionMessage := js_or (Some m) ''Failed to get transcription''\<rparr>)
    | r \<Rightarrow> r)"

lemma executePoll_Rescheduled:
  "executePoll reply attempt s = Rescheduled d a s' \<Longrightarrow>
     a = attempt + 1 \<and> a < poll_maxAttempts \<and> d = 3000"
  by (auto simp: executePoll_def executePoll_try_def Let_def delay_def
      split: fetch_result.splits json_result.splits if_splits poll_step.splits)

text \<open>
  \<^verbatim>\<open>pollTranscription(transcriptId, attempt)\<close>, followed through the timers it sets: when
  the timer fires it is no longer pending, and the function is called for the next
  attempt. This is a run that no \<^verbatim>\<open>clearTimeout\<close> cuts short.
\<close>

function home_poll_loop ::
  "(nat \<Rightarrow> fetch_result) \<Rightarrow> string option \<Rightarrow> nat \<Rightarrow> nat \<Rightarrow> home \<Rightarrow> effect list \<times> home" where
  "home_poll_loop status_reply transcriptId n attempt s =
    (case executePoll (status_reply n) attempt s of
      Rescheduled d attempt' s' \<Rightarrow>
        (let (tr, s'') = home_poll_loop status_reply transcriptId (n + 1) attempt'
                           (s'\<lparr>pollTimeout_armed := False\<rparr>)
         in (FetchStatus transcriptId # SetTimeout d # tr, s''))
    | Settled s' \<Rightarrow> ([FetchStatus transcriptId], s')
    | Thrown m s' \<Rightarrow> ([FetchStatus transcriptId], s'))"
  by pat_completeness auto
termination
  by (relation "measure (\<lambda>(status_reply, transcriptId, n, attempt, s). poll_maxAttempts - attempt)")
    (auto dest: executePoll_Rescheduled)

definition home_pollTranscription ::
  "(nat \<Rightarrow> fetch_result) \<Rightarrow> string option \<Rightarrow> nat \<Rightarrow> home \<Rightarrow> effect list \<times> home" where
  "home_pollTranscription status_reply transcriptId attempt s =
     home_poll_loop status_reply transcriptId 0 attempt s"

text \<open>
  A reply that leaves the job in progress: a successful response whose body parses and
  whose status is neither \<^verbatim>\<open>"completed"\<close> nor \<^verbatim>\<open>"error"\<close>.
\<close>

fun in_progress :: "fetch_result \<Rightarrow> bool" where
  "in_progress (Response ok (JsonValue result)) =
     (ok \<and> j_status result \<noteq> Some ''completed'' \<and> j_status result \<noteq> Some ''error'')"
| "in_progress _ = False"

text \<open>A transport failure: the fetch rejects, or the response is not a success.\<close>

fun transport_failure :: "fetch_result \<Rightarrow> bool" where
  "transport_failure (FetchReject m) = True"
| "transport_failure (Response ok body) = (\<not> ok)"

text \<open>\<open>polling n\<close>: \<open>n + 1\<close> fetches of the status, a timer of 3000 ms between them.\<close>

definition polling :: "string option \<Rightarrow> nat \<Rightarrow> effect list" where
  "polling transcriptId n =
     concat (replicate n [FetchStatus transcriptId, SetTimeout 3000]) @ [FetchStatus transcriptId]"

section \<open>The recording session\<close>

text \<open>
  What the user and the browser can do to a page. \<open>Start granted now\<close> is a call of
  \<^verbatim>\<open>startRecording\<close> in which \<^verbatim>\<open>getUserMedia\<close> resolves (\<open>granted\<close>) or rejects, at
  clock time \<open>now\<close>; \<open>Pause now\<close> is a call of \<^verbatim>\<open>pauseRecording\<close>, which the code uses
  for pausing and for resuming; \<open>Stop\<close> and \<open>Reset\<close> are calls of \<^verbatim>\<open>stopRecording\<close>
  and \<^verbatim>\<open>resetView\<close>. \<open>DataAvailable\<close> and \<open>OnStop\<close> are the recorder's events, for the
  recorder the page refers to or for one it has lost; \<open>Tick\<close> is the display timer.
  \<^verbatim>\<open>startRecording\<close> is taken as one step: what else may happen while it awaits the
  device is not modelled. Constructing and starting a fresh recorder is taken to succeed.
\<close>

datatype target = Current | Lost nat

datatype event =
    Start bool int
  | Pause int
  | Stop
  | Reset
  | DataAvailable target chunk
  | OnStop target
  | Tick int

text \<open>The methods of a recorder, called only in the states where the code calls them.\<close>

definition fresh_recorder :: MediaRecorder where
  "fresh_recorder = \<lparr>state = Inactive, stop_pending = False, stream_live = True\<rparr>"

definition recorder_start :: "MediaRecorder \<Rightarrow> MediaRecorder" where
  "recorder_start r = r\<lparr>state := Recording\<rparr>"

definition recorder_pause :: "MediaRecorder \<Rightarrow> MediaRecorder" where
  "recorder_pause r = r\<lparr>state := Paused\<rparr>"

definition recorder_resume :: "MediaRecorder \<Rightarrow> MediaRecorder" where
  "recorder_resume r = r\<lparr>state := Recording\<rparr>"

definition recorder_stop :: "MediaRecorder \<Rightarrow> MediaRecorder" where
  "recorder_stop r = r\<lparr>state := Inactive, stop_pending := True\<rparr>"

text \<open>
  The browser delivers \<^verbatim>\<open>dataavailable\<close> to a recorder that is active or is being
  stopped, and \<^verbatim>\<open>stop\<close> to a recorder that is being stopped. The handler of \<^verbatim>\<open>stop\<close>
  stops the tracks of the recorder's own stream.
\<close>

definition can_deliver_data :: "MediaRecorder \<Rightarrow> bool" where
  "can_deliver_data r = (state r \<noteq> Inactive \<or> stop_pending r)"

definition stop_delivered :: "MediaRecorder \<Rightarrow> MediaRecorder" where
  "stop_delivered r = r\<lparr>stop_pending := False, stream_live := False\<rparr>"

text \<open>
  A page refers to one recorder at most. When \<^verbatim>\<open>startRecording\<close> overwrites the reference,
  the recorder referred to so far joins the ones the page has lost. \<open>held\<close> counts the
  device handles held: the streams, of all recorders, whose tracks are live.
\<close>

definition retire :: "MediaRecorder option \<Rightarrow> MediaRecorder list \<Rightarrow> MediaRecorder list" where
  "retire cur old = (case cur of None \<Rightarrow> old | Some r \<Rightarrow> old @ [r])"

definition held :: "MediaRecorder option \<Rightarrow> MediaRecorder list \<Rightarrow> nat" where
  "held cur old = length (filter stream_live (retire cur old))"

text \<open>JavaScript's remainder takes the sign of the dividend.\<close>

definition js_rem :: "int \<Rightarrow> int \<Rightarrow> int" where
  "js_rem a b = sgn a * (\<bar>a\<bar> mod \<bar>b\<bar>)"

subsection \<open>app.js\<close>

text \<open>
  The markup of the page is not among the sources: its elements start with the
  properties that \<^verbatim>\<open>updateUI\<close> and \<^verbatim>\<open>resetView\<close> give them for an idle recorder.
\<close>

definition app_init :: app_js where
  "app_init = \<lparr>mediaRecorder = None, detached = [], audioChunks = [], audioBlob = None,
     isRecording = False, isPaused = False, startTime = None, elapsedTime = 0,
     timerInterval = False, lost_intervals = 0,
     recordBtn_disabled = False, recordBtn_textContent = ''Start Recording'',
     pauseBtn_disabled = True, pauseBtn_textContent = ''Pause'',
     stopBtn_disabled = True, submitBtn_disabled = True,
     submitBtn_textContent = ''Submit for Transcription'',
     recordingStatus_textContent = '''', timer_textContent = (0, 0),
     errorMessage = None, recordingView_shown = True, transcriptionView_active = False,
     transcriptionContent = Blank\<rparr>"

definition showError :: "string \<Rightarrow> app_js \<Rightarrow> app_js" where
  "showError message s = s\<lparr>errorMessage := Some message\<rparr>"

text \<open>The status texts are written without their leading pictograms.\<close>

definition updateUI :: "app_js \<Rightarrow> app_js" where
  "updateUI s =
    (if isRecording s \<and> \<not> isPaused s then
       s\<lparr>recordBtn_textContent := ''Recording...'', recordBtn_disabled := True,
         pauseBtn_disabled := False, stopBtn_disabled := False,
         recordingStatus_textContent := ''Recording''\<rparr>
     else if isPaused s then
       s\<lparr>recordBtn_textContent := ''Resume'', recordBtn_disabled := False,
         pauseBtn_textContent := ''Resume'', stopBtn_disabled := False,
         recordingStatus_textContent := ''Paused''\<rparr>
     else
       s\<lparr>recordBtn_textContent := ''Start Recording'', recordBtn_disabled := False,
         pauseBtn_disabled := True, pauseBtn_textContent := ''Pause'',
         stopBtn_disabled := True,
         recordingStatus_textContent :=
           (if audioBlob s \<noteq> None then ''Recording complete'' else '''')\<rparr>)"

definition updateTimerDisplay :: "app_js \<Rightarrow> app_js" where
  "updateTimerDisplay s =
    (let totalSeconds = elapsedTime s div 1000;
         minutes = totalSeconds div 60;
         seconds = js_rem totalSeconds 60
     in s\<lparr>timer_textContent := (minutes, seconds)\<rparr>)"

text \<open>
  \<^verbatim>\<open>setInterval\<close> starts a new interval and its handle replaces the stored one; an
  interval whose handle is replaced is not cleared.
\<close>

definition startTimer :: "app_js \<Rightarrow> app_js" where
  "startTimer s =
     s\<lparr>lost_intervals := (if timerInterval s then lost_intervals s + 1 else lost_intervals s),
       timerInterval := True\<rparr>"

text \<open>The callback of the interval; an unset \<^verbatim>\<open>startTime\<close> counts as 0.\<close>

definition app_tick :: "int \<Rightarrow> app_js \<Rightarrow> app_js" where
  "app_tick now s =
     updateTimerDisplay
       (s\<lparr>elapsedTime := now - (case startTime s of None \<Rightarrow> 0 | Some t \<Rightarrow> t)\<rparr>)"

definition stopTimer :: "app_js \<Rightarrow> app_js" where
  "stopTimer s = (if timerInterval s then s\<lparr>timerInterval := False\<rparr> else s)"

definition app_startRecording :: "bool \<Rightarrow> int \<Rightarrow> app_js \<Rightarrow> app_js" where
  "app_startRecording granted now s =
    (let s1 = s\<lparr>errorMessage := None\<rparr> in
     if granted then
       startTimer (updateUI
         (s1\<lparr>detached := retire (mediaRecorder s1) (detached s1),
             mediaRecorder := Some (recorder_start fresh_recorder),
             audioChunks := [], elapsedTime := 0,
             isRecording := True, isPaused := False, startTime := Some now\<rparr>))
     else
       showError ''Failed to start recording. Please check microphone permissions.'' s1)"

definition app_pauseRecording :: "int \<Rightarrow> app_js \<Rightarrow> app_js" where
  "app_pauseRecording now s =
    (case mediaRecorder s of
      None \<Rightarrow> s
    | Some r \<Rightarrow>
        if state r = Recording then
          updateUI (stopTimer (s\<lparr>mediaRecorder := Some (recorder_pause r), isPaused := True\<rparr>))
        else if state r = Paused then
          updateUI (startTimer
            (s\<lparr>mediaRecorder := Some (recorder_resume r), isPaused := False,
               startTime := Some (now - elapsedTime s)\<rparr>))
        else s)"

definition app_stopRecording :: "app_js \<Rightarrow> app_js" where
  "app_stopRecording s =
    (case mediaRecorder s of
      None \<Rightarrow> s
    | Some r \<Rightarrow>
        if state r \<noteq> Inactive then
          updateUI (stopTimer
            (s\<lparr>mediaRecorder := Some (recorder_stop r), isRecording := False, isPaused := False\<rparr>))
        else s)"

definition app_resetView :: "app_js \<Rightarrow> app_js" where
  "app_resetView s =
     s\<lparr>recordingView_shown := True, transcriptionView_active := False, audioBlob := None,
       submitBtn_disabled := True, timer_textContent := (0, 0),
       recordingStatus_textContent := '''', errorMessage := None,
       transcriptionContent := Blank\<rparr>"

text \<open>The handlers that \<^verbatim>\<open>startRecording\<close> installs on each recorder.\<close>

definition app_ondataavailable :: "chunk \<Rightarrow> app_js \<Rightarrow> app_js" where
  "app_ondataavailable data s =
     (if length data > 0 then s\<lparr>audioChunks := audioChunks s @ [data]\<rparr> else s)"

definition app_onstop :: "app_js \<Rightarrow> app_js" where
  "app_onstop s = s\<lparr>audioBlob := Some (audioChunks s), submitBtn_disabled := False\<rparr>"

text \<open>
  One step of the page; \<open>None\<close> when the browser cannot deliver the event in this state.
\<close>

definition app_step :: "event \<Rightarrow> app_js \<Rightarrow> app_js option" where
  "app_step e s =
    (case e of
      Start granted now \<Rightarrow> Some (app_startRecording granted now s)
    | Pause now \<Rightarrow> Some (app_pauseRecording now s)
    | Stop \<Rightarrow> Some (app_stopRecording s)
    | Reset \<Rightarrow> Some (app_resetView s)
    | Tick now \<Rightarrow>
        if timerInterval s \<or> lost_intervals s > 0 then Some (app_tick now s) else None
    | DataAvailable Current data \<Rightarrow>
        (case mediaRecorder s of
          None \<Rightarrow> None
        | Some r \<Rightarrow> if can_deliver_data r then Some (app_ondataavailable data s) else None)
    | DataAvailable (Lost i) data \<Rightarrow>
        if i < length (detached s) \<and> can_deliver_data (detached s ! i)
        then Some (app_ondataavailable data s) else None
    | OnStop Current \<Rightarrow>
        (case mediaRecorder s of
          None \<Rightarrow> None
        | Some r \<Rightarrow>
            if stop_pending r
            then Some ((app_onstop s)\<lparr>mediaRecorder := Some (stop_delivered r)\<rparr>)
            else None)
    | OnStop (Lost i) \<Rightarrow>
        if i < length (detached s) \<and> stop_pending (detached s ! i)
        then Some ((app_onstop s)\<lparr>detached := (detached s)[i := stop_delivered (detached s ! i)]\<rparr>)
        else None)"

fun app_run :: "event list \<Rightarrow> app_js \<Rightarrow> app_js option" where
  "app_run [] s = Some s"
| "app_run (e # es) s = (case app_step e s of None \<Rightarrow> None | Some s' \<Rightarrow> app_run es s')"

text \<open>A click on the record button reaches \<^verbatim>\<open>startRecording\<close> unless the button is disabled.\<close>

definition app_click_record :: "bool \<Rightarrow> int \<Rightarrow> app_js \<Rightarrow> app_js" where
  "app_click_record granted now s =
     (if recordBtn_disabled s then s else app_startRecording granted now s)"

subsection \<open>index.js\<close>

definition home_init :: home where
  "home_init = \<lparr>mediaRecorderRef = None, lost = [], audioChunksRef = [], audioBlobRef = None,
     timerRef = False, lost_timers = 0, startTimeRef = None, pollTimeoutRef = None, pollTimeout_armed = False,
     recordingState = RS_idle, elapsedMs = 0, error = '''', canSubmit = False,
     transcriptionStatus = TS_idle, transcriptionText = '''',
     transcriptionMessage = ''Processing transcription...'', planError = ''''\<rparr>"

definition home_startTimer :: "int \<Rightarrow> home \<Rightarrow> home" where
  "home_startTimer now s =
     s\<lparr>startTimeRef := Some now, elapsedMs := 0,
       lost_timers := (if timerRef s then lost_timers s + 1 else lost_timers s),
       timerRef := True\<rparr>"

definition home_tick :: "int \<Rightarrow> home \<Rightarrow> home" where
  "home_tick now s =
     s\<lparr>elapsedMs := now - (case startTimeRef s of None \<Rightarrow> 0 | Some t \<Rightarrow> t)\<rparr>"

definition home_stopTimer :: "home \<Rightarrow> home" where
  "home_stopTimer s = (if timerRef s then s\<lparr>timerRef := False\<rparr> else s)"

text \<open>\<^verbatim>\<open>clearTimeout(pollTimeoutRef.current)\<close>, guarded by the handle being set.\<close>

definition clearPollTimeout :: "home \<Rightarrow> home" where
  "clearPollTimeout s =
     (if pollTimeoutRef s \<noteq> None then s\<lparr>pollTimeout_armed := False\<rparr> else s)"

definition home_startRecording :: "bool \<Rightarrow> int \<Rightarrow> home \<Rightarrow> home" where
  "home_startRecording granted now s =
    (let s1 = s\<lparr>error := '''', transcriptionStatus := TS_idle, transcriptionText := '''',
                transcriptionMessage := ''Processing transcription...'',
                audioChunksRef := [], audioBlobRef := None, canSubmit := False\<rparr>
     in
     if granted then
       home_startTimer now
         (s1\<lparr>lost := retire (mediaRecorderRef s1) (lost s1),
             mediaRecorderRef := Some (recorder_start fresh_recorder),
             recordingState := RS_recording\<rparr>)
     else
       s1\<lparr>error := ''Failed to start recording. Please check microphone permissions.''\<rparr>)"

definition home_pauseRecording :: "int \<Rightarrow> home \<Rightarrow> home" where
  "home_pauseRecording now s =
    (case mediaRecorderRef s of
      None \<Rightarrow> s
    | Some recorder \<Rightarrow>
        if state recorder = Recording then
          home_stopTimer
            (s\<lparr>mediaRecorderRef := Some (recorder_pause recorder), recordingState := RS_paused\<rparr>)
        else if state recorder = Paused then
          home_startTimer now
            (s\<lparr>startTimeRef := Some (now - elapsedMs s),
               mediaRecorderRef := Some (recorder_resume recorder),
               recordingState := RS_recording\<rparr>)
        else s)"

definition home_stopRecording :: "home \<Rightarrow> home" where
  "home_stopRecording s =
    (case mediaRecorderRef s of
      None \<Rightarrow> s
    | Some recorder \<Rightarrow>
        if state recorder = Inactive then s
        else
          home_stopTimer
            (s\<lparr>mediaRecorderRef := Some (recorder_stop recorder), recordingState := RS_stopped\<rparr>))"

definition home_resetView :: "home \<Rightarrow> home" where
  "home_resetView s =
     (clearPollTimeout (home_stopTimer s))
       \<lparr>recordingState := RS_idle, elapsedMs := 0, error := '''', canSubmit := False,
        audioChunksRef := [], audioBlobRef := None, transcriptionStatus := TS_idle,
        transcriptionText := '''', transcriptionMessage := ''Processing transcription...'',
        planError := ''''\<rparr>"

text \<open>The cleanup that the effect of the component returns, run when it unmounts.\<close>

definition home_cleanup :: "home \<Rightarrow> home" where
  "home_cleanup s =
    (let s1 = clearPollTimeout (home_stopTimer s) in
     case mediaRecorderRef s1 of
       None \<Rightarrow> s1
     | Some recorder \<Rightarrow>
         if state recorder \<noteq> Inactive
         then s1\<lparr>mediaRecorderRef := Some (recorder_stop recorder)\<rparr>
         else s1)"

definition home_ondataavailable :: "chunk \<Rightarrow> home \<Rightarrow> home" where
  "home_ondataavailable data s =
     (if length data > 0 then s\<lparr>audioChunksRef := audioChunksRef s @ [data]\<rparr> else s)"

definition home_onstop :: "home \<Rightarrow> home" where
  "home_onstop s = s\<lparr>audioBlobRef := Some (audioChunksRef s), canSubmit := True\<rparr>"

definition home_step :: "event \<Rightarrow> home \<Rightarrow> home option" where
  "home_step e s =
    (case e of
      Start granted now \<Rightarrow> Some (home_startRecording granted now s)
    | Pause now \<Rightarrow> Some (home_pauseRecording now s)
    | Stop \<Rightarrow> Some (home_stopRecording s)
    | Reset \<Rightarrow> Some (home_resetView s)
    | Tick now \<Rightarrow>
        if timerRef s \<or> lost_timers s > 0 then Some (home_tick now s) else None
    | DataAvailable Current data \<Rightarrow>
        (case mediaRecorderRef s of
          None \<Rightarrow> None
        | Some r \<Rightarrow> if can_deliver_data r then Some (home_ondataavailable data s) else None)
    | DataAvailable (Lost i) data \<Rightarrow>
        if i < length (lost s) \<and> can_deliver_data (lost s ! i)
        then Some (home_ondataavailable data s) else None
    | OnStop Current \<Rightarrow>
        (case mediaRecorderRef s of
          None \<Rightarrow> None
        | Some r \<Rightarrow>
            if stop_pending r
            then Some ((home_onstop s)\<lparr>mediaRecorderRef := Some (stop_delivered r)\<rparr>)
            else None)
    | OnStop (Lost i) \<Rightarrow>
        if i < length (lost s) \<and> stop_pending (lost s ! i)
        then Some ((home_onstop s)\<lparr>lost := (lost s)[i := stop_delivered (lost s ! i)]\<rparr>)
        else None)"

fun home_run :: "event list \<Rightarrow> home \<Rightarrow> home option" where
  "home_run [] s = Some s"
| "home_run (e # es) s = (case home_step e s of None \<Rightarrow> None | Some s' \<Rightarrow> home_run es s')"

text \<open>
  The record button is rendered with \<^verbatim>\<open>disabled={isRecording || isPaused}\<close>, the two being
  derived from \<^verbatim>\<open>recordingState\<close>.
\<close>

definition home_isRecording :: "home \<Rightarrow> bool" where
  "home_isRecording s = (recordingState s = RS_recording)"

definition home_isPaused :: "home \<Rightarrow> bool" where
  "home_isPaused s = (recordingState s = RS_paused)"

definition home_recordBtn_disabled :: "home \<Rightarrow> bool" where
  "home_recordBtn_disabled s = (home_isRecording s \<or> home_isPaused s)"

definition home_click_record :: "bool \<Rightarrow> int \<Rightarrow> home \<Rightarrow> home" where
  "home_click_record granted now s =
     (if home_recordBtn_disabled s then s else home_startRecording granted now s)"

section \<open>The submission pipeline\<close>

text \<open>What the network answers to one submission.\<close>

record network =
  net_upload :: fetch_result
  net_transcribe :: fetch_result
  net_status :: "nat \<Rightarrow> fetch_result"

text \<open>
  The two requests of the \<^verbatim>\<open>try\<close> block: the effects made, and either the message of
  the exception thrown or the transcript id to poll. \<open>lenient\<close> is index.js, which
  replaces an unreadable error body by an empty object; app.js lets that exception escape.
\<close>

definition error_body :: "bool \<Rightarrow> json_result \<Rightarrow> string \<Rightarrow> string" where
  "error_body lenient body fallback =
    (case body of
      JsonReject m \<Rightarrow> if lenient then fallback else m
    | JsonValue e \<Rightarrow> js_or (j_error e) fallback)"

definition start_job :: "bool \<Rightarrow> network \<Rightarrow> string option \<Rightarrow> effect list \<times> (string + string option)" where
  "start_job lenient net uploadUrl =
    (case net_transcribe net of
      FetchReject m \<Rightarrow> ([StartJob uploadUrl], Inl m)
    | Response ok body \<Rightarrow>
        if \<not> ok then
          ([StartJob uploadUrl], Inl (error_body lenient body ''Failed to start transcription''))
        else (case body of
          JsonReject m \<Rightarrow> ([StartJob uploadUrl], Inl m)
        | JsonValue r \<Rightarrow> ([StartJob uploadUrl], Inr (j_transcriptId r))))"

definition upload_and_start :: "bool \<Rightarrow> network \<Rightarrow> blob \<Rightarrow> effect list \<times> (string + string option)" where
  "upload_and_start lenient net b =
    (case net_upload net of
      FetchReject m \<Rightarrow> ([Upload b], Inl m)
    | Response ok body \<Rightarrow>
        if \<not> ok then ([Upload b], Inl (error_body lenient body ''Failed to upload audio''))
        else (case body of
          JsonReject m \<Rightarrow> ([Upload b], Inl m)
        | JsonValue r \<Rightarrow>
            (let (tr, res) = start_job lenient net (j_uploadUrl r) in (Upload b # tr, res))))"

text \<open>
  app.js: the \<^verbatim>\<open>finally\<close> block runs as soon as \<^verbatim>\<open>pollTranscription\<close> has issued its
  first fetch, before any reply to it is handled.
\<close>

definition app_submitTranscription :: "network \<Rightarrow> app_js \<Rightarrow> effect list \<times> app_js" where
  "app_submitTranscription net s =
    (case audioBlob s of
      None \<Rightarrow> ([], showError ''No audio recorded. Please record audio first.'' s)
    | Some b \<Rightarrow>
        (let s1 = s\<lparr>errorMessage := None, submitBtn_disabled := True,
                    submitBtn_textContent := ''Submitting...'',
                    recordingView_shown := False, transcriptionView_active := True,
                    transcriptionContent :=
                      Loading ''Uploading audio and processing transcription...''\<rparr>;
             finally = (\<lambda>s. s\<lparr>submitBtn_disabled := False,
                                submitBtn_textContent := ''Submit for Transcription''\<rparr>)
         in
         case upload_and_start False net b of
           (tr, Inl m) \<Rightarrow>
             (tr, finally (showErrorInTranscription
                    (js_or (Some m) ''Failed to process transcription'') s1))
         | (tr, Inr transcriptId) \<Rightarrow>
             (let (tr', s2) = app_pollTranscription (net_status net) transcriptId (finally s1)
              in (tr @ tr', s2))))"

definition home_submitTranscription :: "network \<Rightarrow> home \<Rightarrow> effect list \<times> home" where
  "home_submitTranscription net s =
    (case audioBlobRef s of
      None \<Rightarrow> ([], s\<lparr>error := ''No audio recorded. Please record audio first.''\<rparr>)
    | Some b \<Rightarrow>
        (let s1 = s\<lparr>error := '''', transcriptionStatus := TS_uploading,
                    transcriptionText := '''',
                    transcriptionMessage :=
                      ''Uploading audio and processing transcription...''\<rparr>
         in
         case upload_and_start True net b of
           (tr, Inl m) \<Rightarrow>
             (tr, s1\<lparr>transcriptionStatus := TS_error,
                     transcriptionMessage := js_or (Some m) ''Failed to process transcription''\<rparr>)
         | (tr, Inr transcriptId) \<Rightarrow>
             (let (tr', s2) = home_pollTranscription (net_status net) transcriptId 0 s1
              in (tr @ tr', s2))))"

section \<open>The treatment-plans proxy (pages/api/treatment-plans)\<close>

text \<open>
  A value of a JSON request body or of an upstream reply, as far as the handler tells
  values apart: \<open>JUndefined\<close> is an absent property, \<open>JArray n\<close> an array of \<open>n\<close>
  elements, \<open>JObject long\<close> any other object, \<open>long\<close> saying whether its property
  \<^verbatim>\<open>length\<close> compares above 400. \<open>truthy v\<close> is what \<^verbatim>\<open>!v\<close> negates.
\<close>

datatype js_value =
  JUndefined | JNull | JBool bool | JNumber int | JString string | JArray nat | JObject bool

fun truthy :: "js_value \<Rightarrow> bool" where
  "truthy JUndefined = False"
| "truthy JNull = False"
| "truthy (JBool b) = b"
| "truthy (JNumber n) = (n \<noteq> 0)"
| "truthy (JString s) = (s \<noteq> [])"
| "truthy (JArray n) = True"
| "truthy (JObject long) = True"

record planner_body =
  session_id :: js_value
  user_id :: js_value
  slot_id :: js_value
  treatment_planner_text :: js_value

text \<open>\<^verbatim>\<open>req.body || {}\<close>: without a body every property is absent.\<close>

definition no_body :: planner_body where
  "no_body = \<lparr>session_id = JUndefined, user_id = JUndefined, slot_id = JUndefined,
     treatment_planner_text = JUndefined\<rparr>"

record request =
  req_method :: string
  req_body :: "planner_body option"

text \<open>The reply the handler sends: its status and its JSON body.\<close>

datatype reply_json = ErrorJson string "js_value option" | DataJson js_value

record reply =
  res_status :: nat
  res_json :: reply_json

text \<open>
  What one call of \<^verbatim>\<open>axios.post\<close> yields: the data of the response, or an error with
  its \<^verbatim>\<open>code\<close>, its \<^verbatim>\<open>message\<close> and, when the gateway answered, the data of that answer.
\<close>

record axios_error =
  err_code :: "string option"
  err_message :: "string option"
  err_response_data :: "js_value option"

datatype axios_result = AxiosData js_value | AxiosError axios_error

datatype gateway_effect = Post planner_body | Backoff nat



text \<open>
  \<^verbatim>\<open>toLowerCase\<close> and \<^verbatim>\<open>includes\<close> on strings of bytes: the letters A to Z are the only
  ones whose lower case can take part in the word looked for.
\<close>

definition toLowerCase_char :: "char \<Rightarrow> char" where
  "toLowerCase_char c =
     (case map_of (zip ''ABCDEFGHIJKLMNOPQRSTUVWXYZ'' ''abcdefghijklmnopqrstuvwxyz'') c of
        None \<Rightarrow> c
      | Some l \<Rightarrow> l)"

definition toLowerCase :: "string \<Rightarrow> string" where
  "toLowerCase s = map toLowerCase_char s"

fun startsWith :: "string \<Rightarrow> string \<Rightarrow> bool" where
  "startsWith s [] = True"
| "startsWith [] (p # ps) = False"
| "startsWith (c # cs) (p # ps) = (c = p \<and> startsWith cs ps)"

fun js_includes :: "string \<Rightarrow> string \<Rightarrow> bool" where
  "js_includes [] p = (p = [])"
| "js_includes (c # cs) p = (startsWith (c # cs) p \<or> js_includes cs p)"

definition timeoutLike :: "axios_error \<Rightarrow> bool" where
  "timeoutLike e =
     (err_code e = Some ''ECONNABORTED'' \<or> err_code e = Some ''ETIMEDOUT'' \<or>
      (case err_message e of
         None \<Rightarrow> False
       | Some m \<Rightarrow> js_includes (toLowerCase m) ''timeout''))"

text \<open>\<^verbatim>\<open>error.response?.data || error.message || "Failed to generate treatment plans"\<close>\<close>

definition failure_details :: "axios_error \<Rightarrow> js_value" where
  "failure_details e =
    (case err_response_data e of
       Some d \<Rightarrow>
         if truthy d then d
         else JString (js_or (err_message e) ''Failed to generate treatment plans'')
     | None \<Rightarrow> JString (js_or (err_message e) ''Failed to generate treatment plans''))"

definition planner_maxAttempts :: nat where
  "planner_maxAttempts = 2"

text \<open>
  The retry loop of the handler, from the attempt numbered \<open>attempt\<close> on. \<open>post k\<close> is what
  the \<open>k\<close>-th call of \<^verbatim>\<open>axios.post\<close> yields; the result is the sequence of calls and
  waits, and the reply sent. The statement after the loop is the last branch.
\<close>

function planner_loop ::
  "(nat \<Rightarrow> axios_result) \<Rightarrow> planner_body \<Rightarrow> nat \<Rightarrow> axios_error option
     \<Rightarrow> gateway_effect list \<times> reply" where
  "planner_loop post payload attempt lastError =
    (if attempt \<le> planner_maxAttempts then
       (case post attempt of
         AxiosData d \<Rightarrow> ([Post payload], \<lparr>res_status = 200, res_json = DataJson d\<rparr>)
       | AxiosError e \<Rightarrow>
           if attempt < planner_maxAttempts \<and> timeoutLike e then
             (let (tr, r) = planner_loop post payload (attempt + 1) (Some e)
              in (Post payload # Backoff 2000 # tr, r))
           else
             ([Post payload],
              \<lparr>res_status = (if timeoutLike e then 504 else 500),
               res_json = ErrorJson ''Failed to generate treatment plans''
                            (Some (failure_details e))\<rparr>))
     else
       ([], \<lparr>res_status = 500,
             res_json = ErrorJson ''Failed to generate treatment plans''
               (case lastError of
                  None \<Rightarrow> None
                | Some e \<Rightarrow> map_option JString (err_message e))\<rparr>))"
  by pat_completeness auto
termination
  by (relation "measure (\<lambda>(post, payload, attempt, lastError). planner_maxAttempts + 1 - attempt)")
    auto

declare planner_loop.simps [simp del]

text \<open>
  The preview of the text for the log:
  \<^verbatim>\<open>text.length > 400 ? `${text.slice(0, 400)}... [truncated ...]` : text\<close>,
  evaluated outside any \<^verbatim>\<open>try\<close>. Reading \<^verbatim>\<open>length\<close> of an absent or null value throws;
  a boolean or a number has no \<^verbatim>\<open>length\<close>, so the comparison fails and the value is kept;
  a string and an array have \<^verbatim>\<open>slice\<close>; any other object whose \<^verbatim>\<open>length\<close> is above 400
  has no \<^verbatim>\<open>slice\<close> to call, and the call throws. \<open>Truncated v n\<close> is the slice \<open>v\<close> with
  the number \<open>n\<close> of elements cut off.
\<close>

datatype js_error = TypeError

datatype preview = Whole js_value | Truncated js_value nat

fun truncatedText :: "js_value \<Rightarrow> js_error + preview" where
  "truncatedText JUndefined = Inl TypeError"
| "truncatedText JNull = Inl TypeError"
| "truncatedText (JBool b) = Inr (Whole (JBool b))"
| "truncatedText (JNumber n) = Inr (Whole (JNumber n))"
| "truncatedText (JString s) =
     (if length s > 400 then Inr (Truncated (JString (take 400 s)) (length s - 400))
      else Inr (Whole (JString s)))"
| "truncatedText (JArray n) =
     (if n > 400 then Inr (Truncated (JArray 400) (n - 400)) else Inr (Whole (JArray n)))"
| "truncatedText (JObject long) =
     (if long then Inl TypeError else Inr (Whole (JObject long)))"

text \<open>
  The handler. An exception that escapes it is the result \<open>Inl\<close>: the handler itself
  sends no reply then. What it writes to the log does not reach the reply and is left
  out, apart from the preview above, which can throw.
\<close>

definition treatment_plans_handler ::
  "request \<Rightarrow> (nat \<Rightarrow> axios_result) \<Rightarrow> js_error + gateway_effect list \<times> reply" where
  "treatment_plans_handler req post =
    (if req_method req \<noteq> ''POST'' then
       Inr ([], \<lparr>res_status = 405, res_json = ErrorJson ''Method not allowed'' None\<rparr>)
     else
       (let b = (case req_body req of None \<Rightarrow> no_body | Some b \<Rightarrow> b) in
        if \<not> truthy (session_id b) \<or> \<not> truthy (treatment_planner_text b) then
          Inr ([], \<lparr>res_status = 400,
                res_json = ErrorJson ''session_id and treatment_planner_text are required'' None\<rparr>)
        else
          (case truncatedText (treatment_planner_text b) of
            Inl err \<Rightarrow> Inl err
          | Inr truncated \<Rightarrow> Inr (planner_loop post b 1 None))))"



section \<open>Sample inputs\<close>

text \<open>The body of a status reply with the given status and text, and the successful
  response carrying it.\<close>

definition status_body :: "string option \<Rightarrow> string option \<Rightarrow> json_obj" where
  "status_body st txt = \<lparr>j_uploadUrl = None, j_transcriptId = None, j_status = st,
     j_text = txt, j_error = None\<rparr>"

definition status_ok :: "string option \<Rightarrow> string option \<Rightarrow> fetch_result" where
  "status_ok st txt = Response True (JsonValue (status_body st txt))"

text \<open>A network on which a submission succeeds and the job completes at the third poll.\<close>

definition sample_network :: network where
  "sample_network = \<lparr>net_upload = Response True (JsonValue
       \<lparr>j_uploadUrl = Some ''https://cdn.example/u1'', j_transcriptId = None, j_status = None,
        j_text = None, j_error = None\<rparr>),
     net_transcribe = Response True (JsonValue
       \<lparr>j_uploadUrl = None, j_transcriptId = Some ''job-1'', j_status = None,
        j_text = None, j_error = None\<rparr>),
     net_status = (\<lambda>n. if n < 2 then status_ok (Some ''processing'') None
                        else status_ok (Some ''completed'') (Some ''hello''))\<rparr>"

text \<open>The message shown when a fetch of the status fails in transport: the message of
  the rejection (or the fallback of the \<^verbatim>\<open>catch\<close> block when it is empty), or the fixed text
  for a response that is not a success.\<close>

definition transport_message :: "fetch_result \<Rightarrow> string" where
  "transport_message reply =
     (case reply of
        FetchReject m \<Rightarrow> js_or (Some m) ''Failed to get transcription''
      | Response ok body \<Rightarrow> ''Failed to get transcription status'')"


text \<open>A well-formed request; the same with an empty text; the same without user and
  slot; a timeout of the client library; a rejection by the gateway.\<close>

definition sample_body :: planner_body where
  "sample_body = \<lparr>session_id = JString ''session-1'', user_id = JString ''user-1'',
     slot_id = JString ''slot-1'', treatment_planner_text = JString ''Patient reports dry skin.''\<rparr>"






section \<open>What a sequence of events leaves behind\<close>


text \<open>Sample states: a finished recording of one chunk, and a paused recording.\<close>

definition home_recorded :: home where
  "home_recorded = home_init\<lparr>
     mediaRecorderRef := Some \<lparr>state = Inactive, stop_pending = False, stream_live = False\<rparr>,
     audioChunksRef := [[1, 2, 3]], audioBlobRef := Some [[1, 2, 3]],
     startTimeRef := Some 0, recordingState := RS_stopped, canSubmit := True\<rparr>"

definition app_recorded :: app_js where
  "app_recorded = app_init\<lparr>
     mediaRecorder := Some \<lparr>state = Inactive, stop_pending = False, stream_live = False\<rparr>,
     audioChunks := [[1, 2, 3]], audioBlob := Some [[1, 2, 3]],
     startTime := Some 0, submitBtn_disabled := False\<rparr>"

definition one_recording :: "event list" where
  "one_recording = [Start True 0, Stop, DataAvailable Current [1, 2, 3], OnStop Current]"

definition home_recording :: home where
  "home_recording = home_startRecording True 0 home_init"

definition app_recording :: app_js where
  "app_recording = app_startRecording True 0 app_init"

definition home_paused :: home where
  "home_paused = home_pauseRecording 1000 (home_tick 1000 home_recording)"

definition app_paused :: app_js where
  "app_paused = app_pauseRecording 1000 (app_tick 1000 app_recording)"




text \<open>In app.js the flags agree with the recorder when they say what its state says.\<close>

definition flags_agree :: "app_js \<Rightarrow> bool" where
  "flags_agree s =
     (case mediaRecorder s of
        None \<Rightarrow> \<not> isRecording s \<and> \<not> isPaused s
      | Some r \<Rightarrow> isRecording s = (state r \<noteq> Inactive) \<and> isPaused s = (state r = Paused))"

section \<open>Properties of the job poller\<close>

declare app_poll_loop.simps [simp del]
declare home_poll_loop.simps [simp del]

lemma app_poll_loop_Rescheduled:
  "app_poll (status_reply n) attempts s = Rescheduled d a s' \<Longrightarrow>
   app_poll_loop status_reply tid n attempts s =
     (FetchStatus tid # SetTimeout d # fst (app_poll_loop status_reply tid (n + 1) a s'),
      snd (app_poll_loop status_reply tid (n + 1) a s'))"
  by (simp add: app_poll_loop.simps [of status_reply tid n attempts s] split_def Let_def)

lemma app_poll_loop_Settled:
  "app_poll (status_reply n) attempts s = Settled s' \<Longrightarrow>
   app_poll_loop status_reply tid n attempts s = ([FetchStatus tid], s')"
  by (simp add: app_poll_loop.simps [of status_reply tid n attempts s])

lemma app_poll_in_progress:
  assumes "in_progress reply" "attempts + 1 < poll_maxAttempts"
  shows "\<exists>c. app_poll reply attempts s =
           Rescheduled 3000 (attempts + 1) (s\<lparr>transcriptionContent := Loading c\<rparr>)"
  using assms
  by (cases reply rule: in_progress.cases)
     (auto simp: app_poll_def app_poll_try_def Let_def)

lemma app_poll_in_progress_last:
  assumes "in_progress reply" "attempts + 1 \<ge> poll_maxAttempts"
  shows "app_poll reply attempts s =
           Settled (s\<lparr>transcriptionContent := ErrorBox ''Transcription timeout. Please try again.''\<rparr>)"
  using assms
  by (cases reply rule: in_progress.cases)
     (auto simp: app_poll_def app_poll_try_def Let_def showErrorInTranscription_def js_or_def)

lemma app_poll_loop_prefix:
  assumes "\<forall>i<k. in_progress (status_reply (n + i))" "attempts + k < poll_maxAttempts"
  shows "\<exists>s'. app_poll_loop status_reply tid n attempts s =
           (concat (replicate k [FetchStatus tid, SetTimeout 3000])
              @ fst (app_poll_loop status_reply tid (n + k) (attempts + k) s'),
            snd (app_poll_loop status_reply tid (n + k) (attempts + k) s'))"
  using assms
proof (induction k arbitrary: n attempts s)
  case 0
  show ?case by (rule exI [of _ s]) simp
next
  case (Suc k)
  from Suc.prems have first: "in_progress (status_reply n)" by force
  from Suc.prems have rest: "\<forall>i<k. in_progress (status_reply (Suc n + i))" by force
  from Suc.prems have bound: "attempts + 1 < poll_maxAttempts" "Suc attempts + k < poll_maxAttempts"
    by simp_all
  from app_poll_in_progress [OF first bound(1)] obtain c where
    step: "app_poll (status_reply n) attempts s =
             Rescheduled 3000 (attempts + 1) (s\<lparr>transcriptionContent := Loading c\<rparr>)"
    by blast
  from Suc.IH [OF rest bound(2)] obtain s' where
    ih: "app_poll_loop status_reply tid (Suc n) (Suc attempts) (s\<lparr>transcriptionContent := Loading c\<rparr>) =
           (concat (replicate k [FetchStatus tid, SetTimeout 3000])
              @ fst (app_poll_loop status_reply tid (Suc n + k) (Suc attempts + k) s'),
            snd (app_poll_loop status_reply tid (Suc n + k) (Suc attempts + k) s'))"
    by blast
  show ?case
    by (rule exI [of _ s']) (simp add: app_poll_loop_Rescheduled [of status_reply n, OF step] ih)
qed

lemma home_poll_loop_Rescheduled:
  "executePoll (status_reply n) attempt s = Rescheduled d a s' \<Longrightarrow>
   home_poll_loop status_reply tid n attempt s =
     (FetchStatus tid # SetTimeout d #
        fst (home_poll_loop status_reply tid (n + 1) a (s'\<lparr>pollTimeout_armed := False\<rparr>)),
      snd (home_poll_loop status_reply tid (n + 1) a (s'\<lparr>pollTimeout_armed := False\<rparr>)))"
  by (simp add: home_poll_loop.simps [of status_reply tid n attempt s] split_def Let_def)

lemma home_poll_loop_Settled:
  "executePoll (status_reply n) attempt s = Settled s' \<Longrightarrow>
   home_poll_loop status_reply tid n attempt s = ([FetchStatus tid], s')"
  by (simp add: home_poll_loop.simps [of status_reply tid n attempt s])

lemma executePoll_in_progress:
  assumes "in_progress reply" "attempt + 1 < poll_maxAttempts"
  shows "\<exists>m. executePoll reply attempt s =
           Rescheduled 3000 (attempt + 1)
             (s\<lparr>transcriptionStatus := TS_processing, transcriptionMessage := m,
                pollTimeoutRef := Some (attempt + 1), pollTimeout_armed := True\<rparr>)"
  using assms
  by (cases reply rule: in_progress.cases)
     (auto simp: executePoll_def executePoll_try_def Let_def delay_def)

lemma executePoll_in_progress_last:
  assumes "in_progress reply" "attempt + 1 \<ge> poll_maxAttempts"
  shows "\<exists>m. executePoll reply attempt s =
           Settled (s\<lparr>transcriptionStatus := TS_error,
             transcriptionMessage := ''Transcription timeout. Please try again.''\<rparr>)"
  using assms
  by (cases reply rule: in_progress.cases)
     (auto simp: executePoll_def executePoll_try_def Let_def js_or_def)

lemma home_poll_loop_prefix:
  assumes "\<forall>i<k. in_progress (status_reply (n + i))" "attempt + k < poll_maxAttempts"
  shows "\<exists>s'. (k > 0 \<longrightarrow> \<not> pollTimeout_armed s') \<and> (k = 0 \<longrightarrow> s' = s) \<and>
           home_poll_loop status_reply tid n attempt s =
           (concat (replicate k [FetchStatus tid, SetTimeout 3000])
              @ fst (home_poll_loop status_reply tid (n + k) (attempt + k) s'),
            snd (home_poll_loop status_reply tid (n + k) (attempt + k) s'))"
  using assms
proof (induction k arbitrary: n attempt s)
  case 0
  show ?case by (rule exI [of _ s]) simp
next
  case (Suc k)
  from Suc.prems have first: "in_progress (status_reply n)" by force
  from Suc.prems have rest: "\<forall>i<k. in_progress (status_reply (Suc n + i))" by force
  from Suc.prems have bound: "attempt + 1 < poll_maxAttempts" "Suc attempt + k < poll_maxAttempts"
    by simp_all
  from executePoll_in_progress [OF first bound(1)] obtain s1 where
    step: "executePoll (status_reply n) attempt s = Rescheduled 3000 (attempt + 1) s1"
    by blast
  let ?s2 = "s1\<lparr>pollTimeout_armed := False\<rparr>"
  from Suc.IH [OF rest bound(2)] obtain s' where
    ih: "(k > 0 \<longrightarrow> \<not> pollTimeout_armed s') \<and> (k = 0 \<longrightarrow> s' = ?s2) \<and>
         home_poll_loop status_reply tid (Suc n) (Suc attempt) ?s2 =
           (concat (replicate k [FetchStatus tid, SetTimeout 3000])
              @ fst (home_poll_loop status_reply tid (Suc n + k) (Suc attempt + k) s'),
            snd (home_poll_loop status_reply tid (Suc n + k) (Suc attempt + k) s'))"
    by blast
  have "\<not> pollTimeout_armed s'" using ih by (cases k) auto
  then show ?case
    by (intro exI [of _ s']) (simp add: home_poll_loop_Rescheduled [of status_reply n, OF step] ih)
qed


lemma app_poll_transport_failure:
  assumes "transport_failure reply"
  shows "app_poll reply attempts s =
     Settled (s\<lparr>transcriptionContent := ErrorBox
       (case reply of
          FetchReject m \<Rightarrow> js_or (Some m) ''Failed to get transcription''
        | Response ok body \<Rightarrow> ''Failed to get transcription status'')\<rparr>)"
  using assms
  by (cases reply)
     (auto simp: app_poll_def app_poll_try_def showErrorInTranscription_def js_or_def)

lemma executePoll_transport_failure:
  assumes "transport_failure reply"
  shows "executePoll reply attempt s =
     Settled (s\<lparr>transcriptionStatus := TS_error, transcriptionMessage :=
       (case reply of
          FetchReject m \<Rightarrow> js_or (Some m) ''Failed to get transcription''
        | Response ok body \<Rightarrow> ''Failed to get transcription status'')\<rparr>)"
  using assms
  by (cases reply)
     (auto simp: executePoll_def executePoll_try_def js_or_def)

lemma fetches_polling: "fetches (polling tid n) = n + 1"
  by (induction n) (simp_all add: fetches_def polling_def)

lemma polling_no_timer_last: "last (polling tid n) = FetchStatus tid"
  by (simp add: polling_def)


lemma app_run_settles:
  assumes "\<forall>i<k. in_progress (status_reply i)" and "k < poll_maxAttempts"
    and "\<And>s'. app_poll (status_reply k) k s' = Settled (g s')"
  shows "fst (app_pollTranscription status_reply tid s) = polling tid k \<and>
         (\<exists>s'. snd (app_pollTranscription status_reply tid s) = g s')"
proof -
  from assms(1,2) have pre: "\<forall>i<k. in_progress (status_reply (0 + i))" "0 + k < poll_maxAttempts"
    by simp_all
  from app_poll_loop_prefix [OF pre, where tid = tid and s = s] obtain s' where
    A: "app_poll_loop status_reply tid 0 0 s =
          (concat (replicate k [FetchStatus tid, SetTimeout 3000])
             @ fst (app_poll_loop status_reply tid k k s'),
           snd (app_poll_loop status_reply tid k k s'))"
    by auto
  have B: "app_poll_loop status_reply tid k k s' = ([FetchStatus tid], g s')"
    by (rule app_poll_loop_Settled [of status_reply k]) (rule assms(3))
  show ?thesis
    by (auto simp: app_pollTranscription_def A B polling_def)
qed

lemma home_run_settles:
  assumes "\<forall>i<k. in_progress (status_reply i)" and "k < poll_maxAttempts"
    and "\<And>s'. executePoll (status_reply k) k s' = Settled (g s')"
  shows "fst (home_pollTranscription status_reply tid 0 h) = polling tid k \<and>
         (\<exists>s'. snd (home_pollTranscription status_reply tid 0 h) = g s' \<and>
               (k > 0 \<longrightarrow> \<not> pollTimeout_armed s') \<and> (k = 0 \<longrightarrow> s' = h))"
proof -
  from assms(1,2) have pre: "\<forall>i<k. in_progress (status_reply (0 + i))" "0 + k < poll_maxAttempts"
    by simp_all
  from home_poll_loop_prefix [OF pre, where tid = tid and s = h] obtain h' where
    H: "k > 0 \<longrightarrow> \<not> pollTimeout_armed h'" "k = 0 \<longrightarrow> h' = h"
       "home_poll_loop status_reply tid 0 0 h =
          (concat (replicate k [FetchStatus tid, SetTimeout 3000])
             @ fst (home_poll_loop status_reply tid k k h'),
           snd (home_poll_loop status_reply tid k k h'))"
    by auto
  have B: "home_poll_loop status_reply tid k k h' = ([FetchStatus tid], g h')"
    by (rule home_poll_loop_Settled [of status_reply k]) (rule assms(3))
  show ?thesis
    using H(1,2) by (auto simp: home_pollTranscription_def H(3) B polling_def)
qed

lemma app_poll_completed:
  assumes "j_status result = Some ''completed''"
  shows "app_poll (Response True (JsonValue result)) attempts s =
     Settled (s\<lparr>transcriptionContent :=
       TranscriptionText (js_or (j_text result) ''No transcription text available'')\<rparr>)"
  using assms by (simp add: app_poll_def app_poll_try_def)

lemma executePoll_completed:
  assumes "j_status result = Some ''completed''"
  shows "executePoll (Response True (JsonValue result)) attempt s =
     Settled (s\<lparr>transcriptionStatus := TS_completed,
       transcriptionText := js_or (j_text result) ''No transcription text available.'',
       transcriptionMessage := ''Transcription completed.''\<rparr>)"
  using assms by (simp add: executePoll_def executePoll_try_def)

lemma executePoll_in_progress_last':
  assumes "in_progress reply" "attempt + 1 \<ge> poll_maxAttempts"
  shows "executePoll reply attempt s =
           Settled (s\<lparr>transcriptionStatus := TS_error,
             transcriptionMessage := ''Transcription timeout. Please try again.''\<rparr>)"
  using executePoll_in_progress_last [OF assms] by simp

lemma polling_2:
  "polling tid 2 = [FetchStatus tid, SetTimeout 3000, FetchStatus tid, SetTimeout 3000,
     FetchStatus tid]"
  by (simp add: polling_def numeral_2_eq_2)


text \<open>
  Claim C1. When every fetched status leaves the job in progress, the poller of either page
  makes exactly 100 fetches, 3000 ms apart, and ends with the timeout error after the
  100th fetch, with no timer set after it. When the first two fetches find the job in
  progress and the third finds it completed with the text "hello", the poller ends after
  exactly 3 fetches showing that text.
\<close>

theorem C1_poller_bound_and_script:
  "((\<forall>n. in_progress (status_reply n)) \<longrightarrow>
      fst (app_pollTranscription status_reply tid s) = polling tid 99 \<and>
      fetches (fst (app_pollTranscription status_reply tid s)) = 100 \<and>
      last (fst (app_pollTranscription status_reply tid s)) = FetchStatus tid \<and>
      transcriptionContent (snd (app_pollTranscription status_reply tid s)) =
        ErrorBox ''Transcription timeout. Please try again.'' \<and>
      fst (home_pollTranscription status_reply tid 0 h) = polling tid 99 \<and>
      fetches (fst (home_pollTranscription status_reply tid 0 h)) = 100 \<and>
      last (fst (home_pollTranscription status_reply tid 0 h)) = FetchStatus tid \<and>
      transcriptionStatus (snd (home_pollTranscription status_reply tid 0 h)) = TS_error \<and>
      transcriptionMessage (snd (home_pollTranscription status_reply tid 0 h)) =
        ''Transcription timeout. Please try again.'' \<and>
      \<not> pollTimeout_armed (snd (home_pollTranscription status_reply tid 0 h)))
   \<and>
    (in_progress (status_reply 0) \<and> in_progress (status_reply 1) \<and>
     status_reply 2 = Response True (JsonValue result) \<and>
     j_status result = Some ''completed'' \<and> j_text result = Some ''hello'' \<longrightarrow>
      fst (app_pollTranscription status_reply tid s) =
        [FetchStatus tid, SetTimeout 3000, FetchStatus tid, SetTimeout 3000, FetchStatus tid] \<and>
      fetches (fst (app_pollTranscription status_reply tid s)) = 3 \<and>
      transcriptionContent (snd (app_pollTranscription status_reply tid s)) =
        TranscriptionText ''hello'' \<and>
      fst (home_pollTranscription status_reply tid 0 h) =
        [FetchStatus tid, SetTimeout 3000, FetchStatus tid, SetTimeout 3000, FetchStatus tid] \<and>
      fetches (fst (home_pollTranscription status_reply tid 0 h)) = 3 \<and>
      transcriptionStatus (snd (home_pollTranscription status_reply tid 0 h)) = TS_completed \<and>
      transcriptionText (snd (home_pollTranscription status_reply tid 0 h)) = ''hello'')"
proof (intro conjI impI)
  assume never: "\<forall>n. in_progress (status_reply n)"
  then have pre: "\<forall>i<99. in_progress (status_reply i)" by simp
  have bound: "(99::nat) < poll_maxAttempts" by (simp add: poll_maxAttempts_def)
  have last_a: "\<And>s'. app_poll (status_reply 99) 99 s' =
      Settled (s'\<lparr>transcriptionContent := ErrorBox ''Transcription timeout. Please try again.''\<rparr>)"
    using never by (intro app_poll_in_progress_last) (simp_all add: poll_maxAttempts_def)
  have last_h: "\<And>s'. executePoll (status_reply 99) 99 s' =
      Settled (s'\<lparr>transcriptionStatus := TS_error,
             transcriptionMessage := ''Transcription timeout. Please try again.''\<rparr>)"
    using never by (intro executePoll_in_progress_last') (simp_all add: poll_maxAttempts_def)
  note A = app_run_settles [OF pre bound last_a, of tid s]
  note H = home_run_settles [OF pre bound last_h, of tid h]
  show "fst (app_pollTranscription status_reply tid s) = polling tid 99" using A by simp
  then show "fetches (fst (app_pollTranscription status_reply tid s)) = 100"
    by (simp only: fetches_polling)
  show "last (fst (app_pollTranscription status_reply tid s)) = FetchStatus tid"
    using A by (simp only: polling_no_timer_last)
  show "transcriptionContent (snd (app_pollTranscription status_reply tid s)) =
        ErrorBox ''Transcription timeout. Please try again.''"
    using A by auto
  show "fst (home_pollTranscription status_reply tid 0 h) = polling tid 99" using H by simp
  then show "fetches (fst (home_pollTranscription status_reply tid 0 h)) = 100"
    by (simp only: fetches_polling)
  show "last (fst (home_pollTranscription status_reply tid 0 h)) = FetchStatus tid"
    using H by (simp only: polling_no_timer_last)
  show "transcriptionStatus (snd (home_pollTranscription status_reply tid 0 h)) = TS_error"
    using H by auto
  show "transcriptionMessage (snd (home_pollTranscription status_reply tid 0 h)) =
        ''Transcription timeout. Please try again.''"
    using H by auto
  show "\<not> pollTimeout_armed (snd (home_pollTranscription status_reply tid 0 h))"
    using H by auto
next
  assume script: "in_progress (status_reply 0) \<and> in_progress (status_reply 1) \<and>
     status_reply 2 = Response True (JsonValue result) \<and>
     j_status result = Some ''completed'' \<and> j_text result = Some ''hello''"
  then have pre: "\<forall>i<2. in_progress (status_reply i)"
    by (auto simp: less_Suc_eq numeral_2_eq_2)
  have bound: "(2::nat) < poll_maxAttempts" by (simp add: poll_maxAttempts_def)
  have last_a: "\<And>s'. app_poll (status_reply 2) 2 s' =
      Settled (s'\<lparr>transcriptionContent := TranscriptionText ''hello''\<rparr>)"
    using script by (simp add: app_poll_completed js_or_def)
  have last_h: "\<And>s'. executePoll (status_reply 2) 2 s' =
      Settled (s'\<lparr>transcriptionStatus := TS_completed, transcriptionText := ''hello'',
       transcriptionMessage := ''Transcription completed.''\<rparr>)"
    using script by (simp add: executePoll_completed js_or_def)
  note A = app_run_settles [OF pre bound last_a, of tid s]
  note H = home_run_settles [OF pre bound last_h, of tid h]
  show ta: "fst (app_pollTranscription status_reply tid s) =
        [FetchStatus tid, SetTimeout 3000, FetchStatus tid, SetTimeout 3000, FetchStatus tid]"
    using A by (simp only: polling_2)
  show "fetches (fst (app_pollTranscription status_reply tid s)) = 3"
    by (simp add: ta fetches_def)
  show "transcriptionContent (snd (app_pollTranscription status_reply tid s)) =
        TranscriptionText ''hello''"
    using A by auto
  show th: "fst (home_pollTranscription status_reply tid 0 h) =
        [FetchStatus tid, SetTimeout 3000, FetchStatus tid, SetTimeout 3000, FetchStatus tid]"
    using H by (simp only: polling_2)
  show "fetches (fst (home_pollTranscription status_reply tid 0 h)) = 3"
    by (simp add: th fetches_def)
  show "transcriptionStatus (snd (home_pollTranscription status_reply tid 0 h)) = TS_completed"
    using H by auto
  show "transcriptionText (snd (home_pollTranscription status_reply tid 0 h)) = ''hello''"
    using H by auto
qed


theorem C1_poller_bound_and_script_witness:
  "(\<forall>n. in_progress (status_ok (Some ''processing'') None)) \<and>
   fetches (fst (app_pollTranscription (\<lambda>n. status_ok (Some ''processing'') None)
     (Some ''job-1'') app_init)) = 100 \<and>
   transcriptionContent (snd (app_pollTranscription (\<lambda>n. status_ok (Some ''processing'') None)
     (Some ''job-1'') app_init)) = ErrorBox ''Transcription timeout. Please try again.'' \<and>
   fetches (fst (home_pollTranscription (\<lambda>n. status_ok (Some ''processing'') None)
     (Some ''job-1'') 0 home_init)) = 100 \<and>
   transcriptionStatus (snd (home_pollTranscription (\<lambda>n. status_ok (Some ''processing'') None)
     (Some ''job-1'') 0 home_init)) = TS_error \<and>
   fetches (fst (app_pollTranscription
     (\<lambda>n. if n < 2 then status_ok (Some ''processing'') None
           else status_ok (Some ''completed'') (Some ''hello''))
     (Some ''job-1'') app_init)) = 3 \<and>
   transcriptionContent (snd (app_pollTranscription
     (\<lambda>n. if n < 2 then status_ok (Some ''processing'') None
           else status_ok (Some ''completed'') (Some ''hello''))
     (Some ''job-1'') app_init)) = TranscriptionText ''hello'' \<and>
   fetches (fst (home_pollTranscription
     (\<lambda>n. if n < 2 then status_ok (Some ''processing'') None
           else status_ok (Some ''completed'') (Some ''hello''))
     (Some ''job-1'') 0 home_init)) = 3 \<and>
   transcriptionText (snd (home_pollTranscription
     (\<lambda>n. if n < 2 then status_ok (Some ''processing'') None
           else status_ok (Some ''completed'') (Some ''hello''))
     (Some ''job-1'') 0 home_init)) = ''hello''"
proof -
  let ?never = "\<lambda>n::nat. status_ok (Some ''processing'') None"
  let ?script = "\<lambda>n::nat. if n < 2 then status_ok (Some ''processing'') None
           else status_ok (Some ''completed'') (Some ''hello'')"
  have h1: "\<forall>n. in_progress (?never n)"
    by (simp add: status_ok_def status_body_def)
  have h2: "in_progress (?script 0) \<and> in_progress (?script 1) \<and>
     ?script 2 = Response True (JsonValue (status_body (Some ''completed'') (Some ''hello''))) \<and>
     j_status (status_body (Some ''completed'') (Some ''hello'')) = Some ''completed'' \<and>
     j_text (status_body (Some ''completed'') (Some ''hello'')) = Some ''hello''"
    by (simp add: status_ok_def status_body_def)
  note a = C1_poller_bound_and_script [where status_reply = ?never and tid = "Some ''job-1''"
      and s = app_init and h = home_init,
      THEN conjunct1, THEN mp, OF h1]
  note b = C1_poller_bound_and_script [where status_reply = ?script and tid = "Some ''job-1''"
      and s = app_init and h = home_init
      and result = "status_body (Some ''completed'') (Some ''hello'')",
      THEN conjunct2, THEN mp, OF h2]
  from h1 have "\<forall>n::nat. in_progress (status_ok (Some ''processing'') None)" by simp
  with a b show ?thesis by blast
qed




text \<open>
  Claim C6. When a fetch of the status fails in transport (the fetch rejects, or the
  response is not a success), the poller of either page ends at once with the error
  shown: that activation sets no timer, whatever the attempt counter, and a run whose
  earlier fetches found the job in progress ends with the failed fetch as its last
  effect, one fetch per attempt made.
\<close>

theorem C6_transport_failure_ends_polling:
  assumes "transport_failure (status_reply k)"
    and "\<forall>i<k. in_progress (status_reply i)" and "k < poll_maxAttempts"
  shows
   "app_poll (status_reply k) attempt s =
      Settled (s\<lparr>transcriptionContent := ErrorBox (transport_message (status_reply k))\<rparr>) \<and>
    executePoll (status_reply k) attempt h =
      Settled (h\<lparr>transcriptionStatus := TS_error,
                 transcriptionMessage := transport_message (status_reply k)\<rparr>) \<and>
    fst (app_pollTranscription status_reply tid s) = polling tid k \<and>
    fetches (fst (app_pollTranscription status_reply tid s)) = k + 1 \<and>
    last (fst (app_pollTranscription status_reply tid s)) = FetchStatus tid \<and>
    transcriptionContent (snd (app_pollTranscription status_reply tid s)) =
      ErrorBox (transport_message (status_reply k)) \<and>
    fst (home_pollTranscription status_reply tid 0 h) = polling tid k \<and>
    fetches (fst (home_pollTranscription status_reply tid 0 h)) = k + 1 \<and>
    last (fst (home_pollTranscription status_reply tid 0 h)) = FetchStatus tid \<and>
    transcriptionStatus (snd (home_pollTranscription status_reply tid 0 h)) = TS_error \<and>
    transcriptionMessage (snd (home_pollTranscription status_reply tid 0 h)) =
      transport_message (status_reply k) \<and>
    pollTimeout_armed (snd (home_pollTranscription status_reply tid 0 h)) =
      (k = 0 \<and> pollTimeout_armed h)"
proof -
  have a: "\<And>n s'. app_poll (status_reply k) n s' =
      Settled (s'\<lparr>transcriptionContent := ErrorBox (transport_message (status_reply k))\<rparr>)"
    using app_poll_transport_failure [OF assms(1)] by (simp add: transport_message_def)
  have e: "\<And>n h'. executePoll (status_reply k) n h' =
      Settled (h'\<lparr>transcriptionStatus := TS_error,
                 transcriptionMessage := transport_message (status_reply k)\<rparr>)"
    using executePoll_transport_failure [OF assms(1)] by (simp add: transport_message_def)
  note A = app_run_settles [OF assms(2,3) a, of tid s]
  note H = home_run_settles [OF assms(2,3) e, of tid h]
  have ta: "fst (app_pollTranscription status_reply tid s) = polling tid k" using A by simp
  have th: "fst (home_pollTranscription status_reply tid 0 h) = polling tid k" using H by simp
  have fa: "fetches (fst (app_pollTranscription status_reply tid s)) = k + 1"
    by (simp only: ta fetches_polling)
  have fh: "fetches (fst (home_pollTranscription status_reply tid 0 h)) = k + 1"
    by (simp only: th fetches_polling)
  have la: "last (fst (app_pollTranscription status_reply tid s)) = FetchStatus tid"
    by (simp only: ta polling_no_timer_last)
  have lh: "last (fst (home_pollTranscription status_reply tid 0 h)) = FetchStatus tid"
    by (simp only: th polling_no_timer_last)
  have ca: "transcriptionContent (snd (app_pollTranscription status_reply tid s)) =
      ErrorBox (transport_message (status_reply k))"
    using A by auto
  have sh: "transcriptionStatus (snd (home_pollTranscription status_reply tid 0 h)) = TS_error"
    using H by auto
  have mh: "transcriptionMessage (snd (home_pollTranscription status_reply tid 0 h)) =
      transport_message (status_reply k)"
    using H by auto
  have ah: "pollTimeout_armed (snd (home_pollTranscription status_reply tid 0 h)) =
      (k = 0 \<and> pollTimeout_armed h)"
    using H by (cases k) auto
  show ?thesis
    using a [of attempt s] e [of attempt h] ta th fa fh la lh ca sh mh ah by blast
qed

theorem C6_transport_failure_ends_polling_witness:
  "transport_failure (Response False (JsonReject ''no body'')) \<and>
   app_poll (Response False (JsonReject ''no body'')) 3 app_init =
     Settled (app_init\<lparr>transcriptionContent := ErrorBox ''Failed to get transcription status''\<rparr>) \<and>
   fst (app_pollTranscription
     (\<lambda>n. if n < 3 then status_ok (Some ''queued'') None else Response False (JsonReject ''no body''))
     (Some ''job-1'') app_init) = polling (Some ''job-1'') 3 \<and>
   fetches (fst (home_pollTranscription
     (\<lambda>n. if n < 3 then status_ok (Some ''queued'') None else FetchReject ''Failed to fetch'')
     (Some ''job-1'') 0 home_init)) = 4 \<and>
   transcriptionMessage (snd (home_pollTranscription
     (\<lambda>n. if n < 3 then status_ok (Some ''queued'') None else FetchReject ''Failed to fetch'')
     (Some ''job-1'') 0 home_init)) = ''Failed to fetch''"
proof -
  let ?http = "\<lambda>n::nat. if n < 3 then status_ok (Some ''queued'') None
                 else Response False (JsonReject ''no body'')"
  let ?net = "\<lambda>n::nat. if n < 3 then status_ok (Some ''queued'') None
                 else FetchReject ''Failed to fetch''"
  have h1: "transport_failure (?http 3)" "\<forall>i<3. in_progress (?http i)"
    and h2: "transport_failure (?net 3)" "\<forall>i<3. in_progress (?net i)"
    and b: "(3::nat) < poll_maxAttempts"
    by (simp_all add: status_ok_def status_body_def poll_maxAttempts_def)
  from C6_transport_failure_ends_polling [OF h1 b, where attempt = 3 and s = app_init
      and h = home_init and tid = "Some ''job-1''"]
    C6_transport_failure_ends_polling [OF h2 b, where attempt = 3 and s = app_init
      and h = home_init and tid = "Some ''job-1''"]
  show ?thesis
    by (simp add: transport_message_def js_or_def fetches_polling)
qed

section \<open>Properties of the submission pipeline\<close>

lemma submit_with_audio_uploads:
  "audioBlob s = Some b \<Longrightarrow> \<exists>tr. fst (app_submitTranscription net s) = Upload b # tr"
  "audioBlobRef h = Some b \<Longrightarrow> \<exists>tr. fst (home_submitTranscription net h) = Upload b # tr"
  by (auto simp: app_submitTranscription_def home_submitTranscription_def upload_and_start_def
      Let_def split_def split: fetch_result.splits json_result.splits prod.splits sum.splits)

text \<open>
  Claim C3. Called while no audio blob is held, \<^verbatim>\<open>submitTranscription\<close> of either page
  only reports that no audio was recorded: it makes no upload, starts no job and polls
  nothing.
\<close>

theorem C3_no_audio_no_network:
  "(audioBlob s = None \<longrightarrow>
      app_submitTranscription net s =
        ([], s\<lparr>errorMessage := Some ''No audio recorded. Please record audio first.''\<rparr>) \<and>
      filter is_network (fst (app_submitTranscription net s)) = []) \<and>
   (audioBlobRef h = None \<longrightarrow>
      home_submitTranscription net h =
        ([], h\<lparr>error := ''No audio recorded. Please record audio first.''\<rparr>) \<and>
      filter is_network (fst (home_submitTranscription net h)) = [])"
  by (simp add: app_submitTranscription_def home_submitTranscription_def showError_def)

theorem C3_no_audio_no_network_witness:
  "audioBlob app_init = None \<and>
   app_submitTranscription sample_network app_init =
     ([], app_init\<lparr>errorMessage := Some ''No audio recorded. Please record audio first.''\<rparr>) \<and>
   audioBlobRef home_init = None \<and>
   home_submitTranscription sample_network home_init =
     ([], home_init\<lparr>error := ''No audio recorded. Please record audio first.''\<rparr>)"
  using C3_no_audio_no_network [of app_init sample_network home_init]
  by (simp add: app_init_def home_init_def)


section \<open>Properties of the treatment-plans proxy\<close>






lemma handler_throws_on_long_object:
  "treatment_plans_handler
     \<lparr>req_method = ''POST'',
      req_body = Some (sample_body\<lparr>treatment_planner_text := JObject True\<rparr>)\<rparr> post =
   Inl TypeError"
  by (simp add: treatment_plans_handler_def sample_body_def)











section \<open>Properties of the recording session\<close>

lemmas recorder_defs = fresh_recorder_def recorder_start_def recorder_pause_def
  recorder_resume_def recorder_stop_def can_deliver_data_def stop_delivered_def retire_def
  held_def

lemmas home_defs = home_step_def home_startRecording_def home_pauseRecording_def
  home_stopRecording_def home_resetView_def home_ondataavailable_def home_onstop_def
  home_startTimer_def home_stopTimer_def home_tick_def clearPollTimeout_def

lemmas app_defs = app_step_def app_startRecording_def app_pauseRecording_def
  app_stopRecording_def app_resetView_def app_ondataavailable_def app_onstop_def
  startTimer_def stopTimer_def app_tick_def updateUI_def updateTimerDisplay_def showError_def






lemma home_one_recording: "home_run one_recording home_init = Some home_recorded"
  by (simp add: one_recording_def home_recorded_def home_defs recorder_defs home_init_def Let_def)

lemma app_one_recording: "app_run one_recording app_init = Some app_recorded"
  by (simp add: one_recording_def app_recorded_def app_defs recorder_defs app_init_def Let_def)

lemma sample_states:
  "recordingState home_recording = RS_recording"
  "mediaRecorderRef home_recording = Some \<lparr>state = Recording, stop_pending = False, stream_live = True\<rparr>"
  "recordingState home_paused = RS_paused"
  "mediaRecorderRef home_paused = Some \<lparr>state = Paused, stop_pending = False, stream_live = True\<rparr>"
  "elapsedMs home_paused = 1000"
  "isRecording app_recording \<and> \<not> isPaused app_recording"
  "mediaRecorder app_recording = Some \<lparr>state = Recording, stop_pending = False, stream_live = True\<rparr>"
  "isRecording app_paused \<and> isPaused app_paused"
  "mediaRecorder app_paused = Some \<lparr>state = Paused, stop_pending = False, stream_live = True\<rparr>"
  "elapsedTime app_paused = 1000"
  by (simp_all add: home_recording_def home_paused_def app_recording_def app_paused_def
      home_defs app_defs recorder_defs home_init_def app_init_def Let_def)


lemma app_run_append:
  "app_run (es @ es') s = (case app_run es s of None \<Rightarrow> None | Some s' \<Rightarrow> app_run es' s')"
  by (induction es arbitrary: s) (simp_all split: option.splits)

lemma app_step_recordBtn:
  assumes "app_step e s = Some s'"
    and "recordBtn_disabled s = (isRecording s \<and> \<not> isPaused s)"
  shows "recordBtn_disabled s' = (isRecording s' \<and> \<not> isPaused s')"
  using assms
  by (cases e)
     (auto simp: app_defs Let_def split: option.splits if_splits target.splits)

lemma app_run_recordBtn:
  assumes "app_run es s = Some s'"
    and "recordBtn_disabled s = (isRecording s \<and> \<not> isPaused s)"
  shows "recordBtn_disabled s' = (isRecording s' \<and> \<not> isPaused s')"
  using assms
proof (induction es arbitrary: s)
  case Nil
  then show ?case by simp
next
  case (Cons e es)
  then obtain s1 where 1: "app_step e s = Some s1" and 2: "app_run es s1 = Some s'"
    by (auto split: option.splits)
  show ?case
    by (rule Cons.IH [OF 2]) (rule app_step_recordBtn [OF 1 Cons.prems(2)])
qed





text \<open>
  Claim C7, as stated, fails: called while a recording is in progress, \<^verbatim>\<open>startRecording\<close> of
  either page is neither rejected nor ignored. It acquires a second stream and replaces
  the recorder, and two device handles are held.
\<close>

theorem C7_second_start_acquires_device:
  "recordingState home_recording = RS_recording \<and>
   held (mediaRecorderRef home_recording) (lost home_recording) = 1 \<and>
   held (mediaRecorderRef (home_startRecording True 5 home_recording))
        (lost (home_startRecording True 5 home_recording)) = 2 \<and>
   home_startRecording True 5 home_recording \<noteq> home_recording \<and>
   isRecording app_recording \<and>
   held (mediaRecorder app_recording) (detached app_recording) = 1 \<and>
   held (mediaRecorder (app_startRecording True 5 app_recording))
        (detached (app_startRecording True 5 app_recording)) = 2"
proof -
  have "startTimeRef (home_startRecording True 5 home_recording) \<noteq> startTimeRef home_recording"
    by (simp add: home_recording_def home_defs Let_def)
  then have "home_startRecording True 5 home_recording \<noteq> home_recording" by auto
  then show ?thesis
    by (simp add: home_recording_def app_recording_def
      home_defs app_defs recorder_defs home_init_def app_init_def Let_def)
qed

text \<open>
  Claim C7, amended. \<^verbatim>\<open>startRecording\<close> has no guard of its own: in every state, when the
  device is granted, one more device handle is held afterwards than before. A second
  start during a recording is kept away by the record button being disabled, and a click
  on the disabled button changes nothing: in index.js the button is disabled whenever the
  state is Recording or Paused; in app.js it is disabled in every reachable state that is
  recording and not paused.
\<close>

theorem C7_start_guarded_by_button_only:
  "held (mediaRecorderRef (home_startRecording True now h)) (lost (home_startRecording True now h)) =
     held (mediaRecorderRef h) (lost h) + 1 \<and>
   held (mediaRecorder (app_startRecording True now s)) (detached (app_startRecording True now s)) =
     held (mediaRecorder s) (detached s) + 1 \<and>
   (recordingState h = RS_recording \<or> recordingState h = RS_paused \<longrightarrow>
      home_recordBtn_disabled h \<and> home_click_record granted now h = h) \<and>
   (app_run es app_init = Some s \<and> isRecording s \<and> \<not> isPaused s \<longrightarrow>
      recordBtn_disabled s \<and> app_click_record granted now s = s)"
proof (intro conjI impI)
  show "held (mediaRecorderRef (home_startRecording True now h)) (lost (home_startRecording True now h)) =
     held (mediaRecorderRef h) (lost h) + 1"
    by (simp add: home_defs recorder_defs Let_def split: option.splits)
  show "held (mediaRecorder (app_startRecording True now s)) (detached (app_startRecording True now s)) =
     held (mediaRecorder s) (detached s) + 1"
    by (simp add: app_defs recorder_defs Let_def split: option.splits)
next
  assume "recordingState h = RS_recording \<or> recordingState h = RS_paused"
  then show "home_recordBtn_disabled h" "home_click_record granted now h = h"
    by (auto simp: home_recordBtn_disabled_def home_isRecording_def home_isPaused_def
        home_click_record_def)
next
  assume a: "app_run es app_init = Some s \<and> isRecording s \<and> \<not> isPaused s"
  have "recordBtn_disabled s = (isRecording s \<and> \<not> isPaused s)"
    by (rule app_run_recordBtn [of es app_init]) (use a in \<open>simp_all add: app_init_def\<close>)
  with a show "recordBtn_disabled s" "app_click_record granted now s = s"
    by (simp_all add: app_click_record_def)
qed

theorem C7_start_guarded_by_button_only_witness:
  "recordingState home_recording = RS_recording \<and>
   home_click_record True 5 home_recording = home_recording \<and>
   recordingState home_paused = RS_paused \<and>
   home_click_record True 5 home_paused = home_paused \<and>
   app_run [Start True 0] app_init = Some app_recording \<and>
   isRecording app_recording \<and> \<not> isPaused app_recording \<and>
   app_click_record True 5 app_recording = app_recording \<and>
   held (mediaRecorderRef (home_startRecording True 5 home_init)) (lost (home_startRecording True 5 home_init)) = 1"
proof -
  have r: "app_run [Start True 0] app_init = Some app_recording"
    by (simp add: app_step_def app_recording_def)
  have h0: "held (mediaRecorderRef home_init) (lost home_init) = 0"
    by (simp add: home_init_def recorder_defs)
  from r h0 sample_states
    C7_start_guarded_by_button_only [where now = 5 and h = home_recording and s = app_recording
      and granted = True and es = "[Start True 0]"]
    C7_start_guarded_by_button_only [where now = 5 and h = home_paused and s = app_recording
      and granted = True and es = "[Start True 0]"]
    C7_start_guarded_by_button_only [where now = 5 and h = home_init and s = app_recording
      and granted = True and es = "[Start True 0]"]
  show ?thesis by simp
qed

lemma home_cleanup_stops_recorder:
  assumes "mediaRecorderRef h = Some r" and "state r \<noteq> Inactive"
  shows "mediaRecorderRef (home_cleanup h) = Some (recorder_stop r)"
    and "mediaRecorderRef (home_resetView h) = Some r"
  using assms
  by (simp_all add: home_cleanup_def home_resetView_def home_stopTimer_def clearPollTimeout_def
      Let_def)

text \<open>
  What \<^verbatim>\<open>resetView\<close> does clear, in index.js and in app.js, and what it leaves alone: the
  recorder, and with it the stream.
\<close>

lemma home_resetView_clears:
  "recordingState (home_resetView h) = RS_idle"
  "audioBlobRef (home_resetView h) = None"
  "audioChunksRef (home_resetView h) = []"
  "mediaRecorderRef (home_resetView h) = mediaRecorderRef h"
  "lost (home_resetView h) = lost h"
  by (simp_all add: home_defs)

lemma app_resetView_clears:
  "audioBlob (app_resetView s) = None"
  "audioChunks (app_resetView s) = audioChunks s"
  "mediaRecorder (app_resetView s) = mediaRecorder s"
  "detached (app_resetView s) = detached s"
  "isRecording (app_resetView s) = isRecording s"
  by (simp_all add: app_defs)

text \<open>
  Claim C5 asks of \<^verbatim>\<open>resetView\<close> that it release a capture device still held. The code
  does not. In index.js, start a recording and call \<^verbatim>\<open>resetView\<close>: the state is Idle,
  the blob null and the chunks empty, but the recorder keeps recording and its stream
  stays live, so the one device handle is still held. From the same state the cleanup
  that the component runs when it unmounts stops the recorder, and the recorder's
  \<^verbatim>\<open>stop\<close> event then releases the device. In app.js \<^verbatim>\<open>resetView\<close> leaves the device held
  in the same way, together with the flag \<^verbatim>\<open>isRecording\<close>, and after a finished recording
  it leaves the chunks in place.
\<close>

theorem C5_reset_leaves_device_held:
  "home_run [Start True 0] home_init = Some home_recording \<and>
   recordingState home_recording = RS_recording \<and>
   held (mediaRecorderRef home_recording) (lost home_recording) = 1 \<and>
   home_step Reset home_recording = Some (home_resetView home_recording) \<and>
   recordingState (home_resetView home_recording) = RS_idle \<and>
   audioBlobRef (home_resetView home_recording) = None \<and>
   audioChunksRef (home_resetView home_recording) = [] \<and>
   map_option state (mediaRecorderRef (home_resetView home_recording)) = Some Recording \<and>
   held (mediaRecorderRef (home_resetView home_recording)) (lost (home_resetView home_recording)) = 1 \<and>
   map_option state (mediaRecorderRef (home_cleanup home_recording)) = Some Inactive \<and>
   map_option (\<lambda>h. held (mediaRecorderRef h) (lost h))
     (home_step (OnStop Current) (home_cleanup home_recording)) = Some 0 \<and>
   app_run [Start True 0] app_init = Some app_recording \<and>
   held (mediaRecorder (app_resetView app_recording)) (detached (app_resetView app_recording)) = 1 \<and>
   isRecording (app_resetView app_recording) \<and>
   app_run one_recording app_init = Some app_recorded \<and>
   audioChunks (app_resetView app_recorded) = [[1, 2, 3]]"
  using app_one_recording
  by (simp add: home_recording_def app_recording_def app_recorded_def home_cleanup_def
      home_defs app_defs recorder_defs home_init_def app_init_def Let_def)

lemma home_step_label:
  assumes "home_step e h = Some h'"
    and "(recordingState h = RS_recording \<longrightarrow> map_option state (mediaRecorderRef h) = Some Recording) \<and>
         (recordingState h = RS_paused \<longrightarrow> map_option state (mediaRecorderRef h) = Some Paused) \<and>
         (recordingState h = RS_stopped \<longrightarrow> map_option state (mediaRecorderRef h) = Some Inactive)"
  shows "(recordingState h' = RS_recording \<longrightarrow> map_option state (mediaRecorderRef h') = Some Recording) \<and>
         (recordingState h' = RS_paused \<longrightarrow> map_option state (mediaRecorderRef h') = Some Paused) \<and>
         (recordingState h' = RS_stopped \<longrightarrow> map_option state (mediaRecorderRef h') = Some Inactive)"
  using assms
  by (cases e)
     (auto simp: home_defs recorder_defs Let_def split: option.splits if_splits target.splits)

lemma home_run_label:
  assumes "home_run es h = Some h'"
    and "(recordingState h = RS_recording \<longrightarrow> map_option state (mediaRecorderRef h) = Some Recording) \<and>
         (recordingState h = RS_paused \<longrightarrow> map_option state (mediaRecorderRef h) = Some Paused) \<and>
         (recordingState h = RS_stopped \<longrightarrow> map_option state (mediaRecorderRef h) = Some Inactive)"
  shows "(recordingState h' = RS_recording \<longrightarrow> map_option state (mediaRecorderRef h') = Some Recording) \<and>
         (recordingState h' = RS_paused \<longrightarrow> map_option state (mediaRecorderRef h') = Some Paused) \<and>
         (recordingState h' = RS_stopped \<longrightarrow> map_option state (mediaRecorderRef h') = Some Inactive)"
  using assms
proof (induction es arbitrary: h)
  case Nil
  then show ?case by simp
next
  case (Cons e es)
  then obtain h1 where 1: "home_step e h = Some h1" and 2: "home_run es h1 = Some h'"
    by (auto split: option.splits)
  show ?case
    by (rule Cons.IH [OF 2]) (rule home_step_label [OF 1 Cons.prems(2)])
qed

lemma app_step_flags:
  assumes "app_step e s = Some s'" and "flags_agree s"
  shows "flags_agree s'"
  using assms
  by (cases e)
     (auto simp: flags_agree_def app_defs recorder_defs Let_def
        split: option.splits if_splits target.splits)

lemma app_run_flags:
  assumes "app_run es s = Some s'" and "flags_agree s"
  shows "flags_agree s'"
  using assms
proof (induction es arbitrary: s)
  case Nil
  then show ?case by simp
next
  case (Cons e es)
  then obtain s1 where 1: "app_step e s = Some s1" and 2: "app_run es s1 = Some s'"
    by (auto split: option.splits)
  show ?case
    by (rule Cons.IH [OF 2]) (rule app_step_flags [OF 1 Cons.prems(2)])
qed

lemma flags_agree_recorder:
  assumes "flags_agree s"
  shows "\<not> isRecording s \<and> \<not> isPaused s \<Longrightarrow>
           mediaRecorder s = None \<or> map_option state (mediaRecorder s) = Some Inactive"
    and "isPaused s \<Longrightarrow> map_option state (mediaRecorder s) = Some Paused"
  using assms by (auto simp: flags_agree_def split: option.splits)

lemma pause_without_active_recorder:
  "mediaRecorderRef h = None \<or> map_option state (mediaRecorderRef h) = Some Inactive \<Longrightarrow>
     home_pauseRecording now h = h"
  "mediaRecorder s = None \<or> map_option state (mediaRecorder s) = Some Inactive \<Longrightarrow>
     app_pauseRecording now s = s"
  by (auto simp: home_defs app_defs split: option.splits)

lemma pause_resumes:
  "map_option state (mediaRecorderRef h) = Some Paused \<Longrightarrow>
      map_option state (mediaRecorderRef (home_pauseRecording now h)) = Some Recording \<and>
      recordingState (home_pauseRecording now h) = RS_recording \<and>
      timerRef (home_pauseRecording now h) \<and>
      audioChunksRef (home_pauseRecording now h) = audioChunksRef h"
  "map_option state (mediaRecorder s) = Some Paused \<Longrightarrow>
      map_option state (mediaRecorder (app_pauseRecording now s)) = Some Recording \<and>
      \<not> isPaused (app_pauseRecording now s) \<and>
      timerInterval (app_pauseRecording now s) \<and>
      startTime (app_pauseRecording now s) = Some (now - elapsedTime s) \<and>
      elapsedTime (app_pauseRecording now s) = elapsedTime s \<and>
      audioChunks (app_pauseRecording now s) = audioChunks s"
  by (auto simp: home_defs app_defs recorder_defs split: option.splits)

text \<open>
  Claim C8, as stated, fails in two states. In the state Paused, \<^verbatim>\<open>pauseRecording\<close>
  resumes the recorder: the state becomes Recording and the timer runs again. And in
  index.js, after \<^verbatim>\<open>resetView\<close> was called during a recording, the state is Idle while
  the recorder still records: there \<^verbatim>\<open>pauseRecording\<close> pauses it and the state becomes
  Paused.
\<close>

theorem C8_pause_outside_recording_not_always_noop:
  "recordingState home_paused = RS_paused \<and>
   recordingState (home_pauseRecording 5000 home_paused) = RS_recording \<and>
   map_option state (mediaRecorderRef (home_pauseRecording 5000 home_paused)) = Some Recording \<and>
   timerRef (home_pauseRecording 5000 home_paused) \<and> \<not> timerRef home_paused \<and>
   isPaused app_paused \<and> \<not> isPaused (app_pauseRecording 5000 app_paused) \<and>
   map_option state (mediaRecorder (app_pauseRecording 5000 app_paused)) = Some Recording \<and>
   timerInterval (app_pauseRecording 5000 app_paused) \<and> \<not> timerInterval app_paused \<and>
   home_run [Start True 0, Reset] home_init = Some (home_resetView home_recording) \<and>
   recordingState (home_resetView home_recording) = RS_idle \<and>
   recordingState (home_pauseRecording 5000 (home_resetView home_recording)) = RS_paused \<and>
   map_option state (mediaRecorderRef (home_pauseRecording 5000 (home_resetView home_recording))) =
     Some Paused"
  by (simp add: home_recording_def home_paused_def app_recording_def app_paused_def
      home_defs app_defs recorder_defs home_init_def app_init_def Let_def)

text \<open>
  Claim C8, amended. \<^verbatim>\<open>pauseRecording\<close> toggles between pausing and resuming. In
  index.js it changes nothing at all in every reachable state Stopped, and in every state
  Idle in which there is no recorder or the recorder is inactive; in every reachable
  state Paused it resumes: the recorder records, the state is Recording, a timer runs,
  the chunks are as before. In app.js it changes nothing at all in every reachable state
  that is neither recording nor paused (Idle and Stopped); in every reachable state that
  is paused it resumes, restarting the clock from the time elapsed so far, chunks and
  elapsed time as before.
\<close>

theorem C8_pause_is_a_toggle:
  "(home_run es home_init = Some h \<and> recordingState h = RS_stopped \<longrightarrow>
      home_pauseRecording now h = h) \<and>
   (recordingState h = RS_idle \<and>
    (mediaRecorderRef h = None \<or> map_option state (mediaRecorderRef h) = Some Inactive) \<longrightarrow>
      home_pauseRecording now h = h) \<and>
   (home_run es home_init = Some h \<and> recordingState h = RS_paused \<longrightarrow>
      map_option state (mediaRecorderRef (home_pauseRecording now h)) = Some Recording \<and>
      recordingState (home_pauseRecording now h) = RS_recording \<and>
      timerRef (home_pauseRecording now h) \<and>
      audioChunksRef (home_pauseRecording now h) = audioChunksRef h) \<and>
   (app_run es' app_init = Some s \<and> \<not> isRecording s \<and> \<not> isPaused s \<longrightarrow>
      app_pauseRecording now s = s) \<and>
   (app_run es' app_init = Some s \<and> isPaused s \<longrightarrow>
      map_option state (mediaRecorder (app_pauseRecording now s)) = Some Recording \<and>
      \<not> isPaused (app_pauseRecording now s) \<and>
      timerInterval (app_pauseRecording now s) \<and>
      startTime (app_pauseRecording now s) = Some (now - elapsedTime s) \<and>
      elapsedTime (app_pauseRecording now s) = elapsedTime s \<and>
      audioChunks (app_pauseRecording now s) = audioChunks s)"
proof -
  have hl: "(recordingState h = RS_recording \<longrightarrow> map_option state (mediaRecorderRef h) = Some Recording) \<and>
         (recordingState h = RS_paused \<longrightarrow> map_option state (mediaRecorderRef h) = Some Paused) \<and>
         (recordingState h = RS_stopped \<longrightarrow> map_option state (mediaRecorderRef h) = Some Inactive)"
    if "home_run es home_init = Some h"
    by (rule home_run_label [OF that]) (simp add: home_init_def)
  have al: "flags_agree s" if "app_run es' app_init = Some s"
    by (rule app_run_flags [OF that]) (simp add: flags_agree_def app_init_def)
  show ?thesis
    using hl flags_agree_recorder [OF al]
      pause_without_active_recorder(1) [where h = h and now = now]
      pause_without_active_recorder(2) [where s = s and now = now]
      pause_resumes(1) [where h = h and now = now]
      pause_resumes(2) [where s = s and now = now]
    by blast
qed

theorem C8_pause_is_a_toggle_witness:
  "home_run one_recording home_init = Some home_recorded \<and>
   recordingState home_recorded = RS_stopped \<and>
   home_pauseRecording 7 home_recorded = home_recorded \<and>
   recordingState home_init = RS_idle \<and> mediaRecorderRef home_init = None \<and>
   home_pauseRecording 7 home_init = home_init \<and>
   home_run [Start True 0, Tick 1000, Pause 1000] home_init = Some home_paused \<and>
   recordingState home_paused = RS_paused \<and>
   recordingState (home_pauseRecording 5000 home_paused) = RS_recording \<and>
   app_run one_recording app_init = Some app_recorded \<and>
   \<not> isRecording app_recorded \<and> \<not> isPaused app_recorded \<and>
   app_pauseRecording 7 app_recorded = app_recorded \<and>
   app_run [Start True 0, Tick 1000, Pause 1000] app_init = Some app_paused \<and>
   isPaused app_paused \<and>
   startTime (app_pauseRecording 5000 app_paused) = Some 4000"
proof -
  have r1: "home_run [Start True 0, Tick 1000, Pause 1000] home_init = Some home_paused"
    by (simp add: home_paused_def home_recording_def home_step_def home_startRecording_def
        home_startTimer_def Let_def)
  have r2: "app_run [Start True 0, Tick 1000, Pause 1000] app_init = Some app_paused"
    by (simp add: app_paused_def app_recording_def app_step_def app_startRecording_def
        startTimer_def updateUI_def Let_def)
  have a: "recordingState home_recorded = RS_stopped" "recordingState home_init = RS_idle"
    "mediaRecorderRef home_init = None" "\<not> isRecording app_recorded \<and> \<not> isPaused app_recorded"
    "elapsedTime app_paused = 1000"
    by (simp_all add: home_init_def app_init_def home_recorded_def app_recorded_def sample_states)
  from a r1 r2 home_one_recording app_one_recording sample_states
    C8_pause_is_a_toggle [where es = one_recording and h = home_recorded
      and es' = one_recording and s = app_recorded and now = 7]
    C8_pause_is_a_toggle [where es = "[]" and h = home_init
      and es' = one_recording and s = app_recorded and now = 7]
    C8_pause_is_a_toggle [where es = "[Start True 0, Tick 1000, Pause 1000]" and h = home_paused
      and es' = "[Start True 0, Tick 1000, Pause 1000]" and s = app_paused and now = 5000]
  show ?thesis by simp
qed


end
